theory Spec2Isabelle
  imports Main
begin

section \<open>JavaScript strings\<close>

text \<open>
  A JavaScript string is a sequence of UTF-16 code units; a code unit is modelled as a
  natural number. \<open>jstr\<close> embeds an Isabelle string literal (code units below 256).
  The case folding of the \<open>i\<close> flag is modelled on Basic Latin and Latin-1, which is
  where the patterns of the route have their letters; every other code unit is left
  unchanged. \<open>String.prototype.toLowerCase\<close> is not modelled: it is a parameter \<open>lower\<close> of
  every function that calls it, so that the theorems hold whatever the host makes of a
  string. The sample inputs are strings of code units below 256, on which \<open>toLowerCase\<close>
  maps every code unit by itself, as \<open>lowerLatin1\<close> does.
\<close>

type_synonym jstring = "nat list"

definition jstr :: "string \<Rightarrow> jstring" where
  "jstr s = map of_char s"

definition isSpace :: "nat \<Rightarrow> bool" where
  \<comment> \<open>WhiteSpace and LineTerminator: what \<open>\s\<close> matches and what \<open>trim()\<close> removes\<close>
  "isSpace c = ((9 \<le> c \<and> c \<le> 13) \<or> c = 32 \<or> c = 160 \<or> c = 5760 \<or> (8192 \<le> c \<and> c \<le> 8202)
      \<or> c = 8232 \<or> c = 8233 \<or> c = 8239 \<or> c = 8287 \<or> c = 12288 \<or> c = 65279)"

definition isLineTerm :: "nat \<Rightarrow> bool" where
  "isLineTerm c = (c = 10 \<or> c = 13 \<or> c = 8232 \<or> c = 8233)"

definition isWordChar :: "nat \<Rightarrow> bool" where
  "isWordChar n = ((48 \<le> n \<and> n \<le> 57) \<or> (65 \<le> n \<and> n \<le> 90) \<or> n = 95 \<or> (97 \<le> n \<and> n \<le> 122))"

definition canon :: "nat \<Rightarrow> nat" where
  \<comment> \<open>Canonicalize of the \<open>i\<close> flag: the upper-case code unit\<close>
  "canon n = (if (97 \<le> n \<and> n \<le> 122) \<or> (224 \<le> n \<and> n \<le> 254 \<and> n \<noteq> 247) then n - 32 else n)"

definition lowerU :: "nat \<Rightarrow> nat" where
  "lowerU n = (if (65 \<le> n \<and> n \<le> 90) \<or> (192 \<le> n \<and> n \<le> 222 \<and> n \<noteq> 215) then n + 32 else n)"

definition lowerLatin1 :: "jstring \<Rightarrow> jstring" where
  \<comment> \<open>\<open>toLowerCase\<close> on a string of code units below 256\<close>
  "lowerLatin1 s = map lowerU s"

fun consEnd :: "nat \<Rightarrow> jstring \<Rightarrow> jstring" where
  "consEnd x [] = (if isSpace x then [] else [x])"
| "consEnd x (y # ys) = x # y # ys"

fun trimEnd :: "jstring \<Rightarrow> jstring" where
  "trimEnd [] = []"
| "trimEnd (x # xs) = consEnd x (trimEnd xs)"

definition trim :: "jstring \<Rightarrow> jstring" where
  "trim s = trimEnd (dropWhile isSpace s)"

fun startsWith :: "jstring \<Rightarrow> jstring \<Rightarrow> bool" where
  "startsWith s [] = True"
| "startsWith [] (y # ys) = False"
| "startsWith (x # xs) (y # ys) = (x = y \<and> startsWith xs ys)"

fun jsIncludes :: "jstring \<Rightarrow> jstring \<Rightarrow> bool" where
  "jsIncludes [] t = (t = [])"
| "jsIncludes (x # xs) t = (if startsWith (x # xs) t then True else jsIncludes xs t)"

fun splitOn :: "nat \<Rightarrow> jstring \<Rightarrow> jstring list" where
  "splitOn c [] = [[]]"
| "splitOn c (x # xs) =
     (if x = c then [] # splitOn c xs
      else (case splitOn c xs of [] \<Rightarrow> [[x]] | h # t \<Rightarrow> (x # h) # t))"

definition substring :: "jstring \<Rightarrow> nat \<Rightarrow> nat \<Rightarrow> jstring" where
  "substring s a b = take (b - a) (drop a s)"

definition truthy :: "jstring option \<Rightarrow> bool" where
  \<comment> \<open>a capture that is neither \<open>undefined\<close> nor the empty string\<close>
  "truthy c = (case c of None \<Rightarrow> False | Some s \<Rightarrow> s \<noteq> [])"

definition textOf :: "jstring option \<Rightarrow> jstring" where
  "textOf c = (case c of None \<Rightarrow> [] | Some s \<Rightarrow> s)"

section \<open>Regular expressions\<close>

text \<open>
  The patterns of the route are written in the syntax tree below, one constructor per
  construct of the pattern language they use. \<open>Rep g lo hi r\<close> is a quantifier: greedy
  when \<open>g\<close>, at least \<open>lo\<close> and at most \<open>hi\<close> repetitions (\<open>None\<close>: unbounded).
\<close>

datatype citem = CC nat | CR nat nat | CSpace | CNotSpace

datatype rx =
    Eps
  | Chr nat
  | Dot
  | Cls bool "citem list"
  | Seq rx rx
  | Alt rx rx
  | Rep bool nat "nat option" rx
  | Grp nat rx
  | Look rx
  | Bol
  | Eol
  | Wb

definition lit :: "string \<Rightarrow> rx" where
  "lit s = foldr Seq (map (\<lambda>c. Chr (of_char c)) s) Eps"

definition seqs :: "rx list \<Rightarrow> rx" where
  "seqs rs = foldr Seq rs Eps"

fun alts :: "rx list \<Rightarrow> rx" where
  "alts [] = Eps"
| "alts [r] = r"
| "alts (r # rs) = Alt r (alts rs)"

abbreviation Star :: "rx \<Rightarrow> rx" where "Star r \<equiv> Rep True 0 None r"
abbreviation StarL :: "rx \<Rightarrow> rx" where "StarL r \<equiv> Rep False 0 None r"
abbreviation Plus :: "rx \<Rightarrow> rx" where "Plus r \<equiv> Rep True (Suc 0) None r"
abbreviation PlusL :: "rx \<Rightarrow> rx" where "PlusL r \<equiv> Rep False (Suc 0) None r"
abbreviation Opt :: "rx \<Rightarrow> rx" where "Opt r \<equiv> Rep True 0 (Some (Suc 0)) r"
abbreviation WS :: rx where "WS \<equiv> Cls False [CSpace]"
abbreviation AnyCh :: rx where "AnyCh \<equiv> Cls False [CSpace, CNotSpace]"
abbreviation NotIn :: "string \<Rightarrow> rx" where "NotIn s \<equiv> Cls True (map (\<lambda>c. CC (of_char c)) s)"

text \<open>
  The matcher follows the backtracking semantics of the language standard, in
  continuation-passing style: \<open>matcher ci r k x\<close> matches \<open>r\<close> at state \<open>x\<close> and hands every
  way of matching it, in priority order, to the continuation \<open>k\<close> until one succeeds.
  A state is the position, the code unit before it, the rest of the input and the
  captures so far (group, start, end).
\<close>

datatype mstate = St (pos: nat) (prev: "nat option") (rest: jstring) (caps: "(nat \<times> nat \<times> nat) list")

type_synonym mres = "nat \<times> (nat \<times> nat \<times> nat) list"
type_synonym cont = "mstate \<Rightarrow> mres option"

fun inItem :: "bool \<Rightarrow> citem \<Rightarrow> nat \<Rightarrow> bool" where
  "inItem ci (CC c) d = (if ci then canon d = canon c else d = c)"
| "inItem ci (CR a b) d = ((a \<le> d \<and> d \<le> b) \<or> (ci \<and> ((a \<le> canon d \<and> canon d \<le> b) \<or> (a \<le> lowerU d \<and> lowerU d \<le> b))))"
| "inItem ci CSpace d = isSpace d"
| "inItem ci CNotSpace d = (\<not> isSpace d)"

fun inItems :: "bool \<Rightarrow> citem list \<Rightarrow> nat \<Rightarrow> bool" where
  "inItems ci [] d = False"
| "inItems ci (i # is) d = (if inItem ci i d then True else inItems ci is d)"

fun groups :: "rx \<Rightarrow> nat list" where
  "groups (Seq a b) = groups a @ groups b"
| "groups (Alt a b) = groups a @ groups b"
| "groups (Rep g lo hi r) = groups r"
| "groups (Grp n r) = n # groups r"
| "groups (Look r) = groups r"
| "groups _ = []"

fun accept :: cont where
  "accept (St i pv s cs) = Some (i, cs)"

fun step :: "(nat \<Rightarrow> bool) \<Rightarrow> cont \<Rightarrow> cont" where
  "step p k (St i pv [] cs) = None"
| "step p k (St i pv (d # ds) cs) = (if p d then k (St (i + 1) (Some d) ds cs) else None)"

fun clearCaps :: "nat list \<Rightarrow> mstate \<Rightarrow> mstate" where
  "clearCaps gs (St i pv s cs) = St i pv s (filter (\<lambda>c. fst c \<notin> set gs) cs)"

fun setCaps :: "mstate \<Rightarrow> (nat \<times> nat \<times> nat) list \<Rightarrow> mstate" where
  "setCaps (St i pv s cs) cs' = St i pv s cs'"

fun grpEnd :: "nat \<Rightarrow> nat \<Rightarrow> cont \<Rightarrow> cont" where
  "grpEnd n a k (St i pv s cs) = k (St i pv s ((n, a, i) # cs))"

fun decMax :: "nat option \<Rightarrow> nat option" where
  "decMax None = None"
| "decMax (Some j) = Some (j - 1)"

text \<open>
  RepeatMatcher. Once the lower bound is used up, an iteration that consumes nothing is
  rejected, so every further iteration consumes input; the rest of the input at entry
  bounds the number of such iterations and serves as the recursion argument.
\<close>

fun rep_star :: "bool \<Rightarrow> nat list \<Rightarrow> (cont \<Rightarrow> cont) \<Rightarrow> nat option \<Rightarrow> jstring \<Rightarrow> cont \<Rightarrow> cont" where
  "rep_star g gs bm hi [] k x = k x"
| "rep_star g gs bm hi (f # fuel) k x =
    (if hi = Some 0 then k x
     else if g then
       (case bm (\<lambda>y. if pos y = pos x then None else rep_star g gs bm (decMax hi) fuel k y) (clearCaps gs x) of
          Some z \<Rightarrow> Some z
        | None \<Rightarrow> k x)
     else
       (case k x of
          Some z \<Rightarrow> Some z
        | None \<Rightarrow> bm (\<lambda>y. if pos y = pos x then None else rep_star g gs bm (decMax hi) fuel k y) (clearCaps gs x)))"

fun rep_min :: "bool \<Rightarrow> nat list \<Rightarrow> (cont \<Rightarrow> cont) \<Rightarrow> nat \<Rightarrow> nat option \<Rightarrow> cont \<Rightarrow> cont" where
  "rep_min g gs bm 0 hi k (St i pv s cs) = rep_star g gs bm hi s k (St i pv s cs)"
| "rep_min g gs bm (Suc lo) hi k x =
    (if hi = Some 0 then k x else bm (rep_min g gs bm lo (decMax hi) k) (clearCaps gs x))"

fun matcher :: "bool \<Rightarrow> rx \<Rightarrow> cont \<Rightarrow> cont" where
  "matcher ci Eps k x = k x"
| "matcher ci (Chr c) k x = step (\<lambda>d. if ci then canon d = canon c else d = c) k x"
| "matcher ci Dot k x = step (\<lambda>d. \<not> isLineTerm d) k x"
| "matcher ci (Cls neg items) k x = step (\<lambda>d. inItems ci items d \<noteq> neg) k x"
| "matcher ci (Seq a b) k x = matcher ci a (matcher ci b k) x"
| "matcher ci (Alt a b) k x = (case matcher ci a k x of Some z \<Rightarrow> Some z | None \<Rightarrow> matcher ci b k x)"
| "matcher ci (Rep g lo hi r) k x = rep_min g (groups r) (matcher ci r) lo hi k x"
| "matcher ci (Grp n r) k x = matcher ci r (grpEnd n (pos x) k) x"
| "matcher ci (Look r) k x = (case matcher ci r accept x of None \<Rightarrow> None | Some z \<Rightarrow> k (setCaps x (snd z)))"
| "matcher ci Bol k x = (if pos x = 0 then k x else None)"
| "matcher ci Eol k x = (if rest x = [] then k x else None)"
| "matcher ci Wb k x =
     (if (case prev x of None \<Rightarrow> False | Some c \<Rightarrow> isWordChar c) \<noteq>
         (case rest x of [] \<Rightarrow> False | c # _ \<Rightarrow> isWordChar c)
      then k x else None)"

text \<open>
  \<open>search\<close> is the scan of \<open>exec\<close>: the leftmost start position at which the pattern
  matches. \<open>rmatch\<close> is \<open>String.prototype.match\<close> for a pattern without the \<open>g\<close> flag:
  the match array, element 0 the matched text, element \<open>n\<close> the capture of group \<open>n\<close>.
\<close>

fun search :: "bool \<Rightarrow> rx \<Rightarrow> nat \<Rightarrow> nat option \<Rightarrow> jstring \<Rightarrow> (nat \<times> mres) option" where
  "search ci r p pv [] =
     (case matcher ci r accept (St p pv [] []) of
        Some z \<Rightarrow> Some (p, z)
      | None \<Rightarrow> None)"
| "search ci r p pv (c # cs) =
     (case matcher ci r accept (St p pv (c # cs) []) of
        Some z \<Rightarrow> Some (p, z)
      | None \<Rightarrow> search ci r (p + 1) (Some c) cs)"

type_synonym jsmatch = "jstring option list"

definition capture :: "jstring \<Rightarrow> (nat \<times> nat \<times> nat) list \<Rightarrow> nat \<Rightarrow> jstring option" where
  "capture s cs n = (case map_of cs n of None \<Rightarrow> None | Some (a, b) \<Rightarrow> Some (substring s a b))"

definition matchArray :: "jstring \<Rightarrow> rx \<Rightarrow> nat \<times> mres \<Rightarrow> jsmatch" where
  "matchArray s r z =
     Some (substring s (fst z) (fst (snd z))) # map (capture s (snd (snd z))) [1 ..< Suc (foldr max (groups r) 0)]"

definition rmatch :: "jstring \<Rightarrow> bool \<Rightarrow> rx \<Rightarrow> jsmatch option" where
  "rmatch s ci r = map_option (matchArray s r) (search ci r 0 None s)"

definition grp :: "jsmatch \<Rightarrow> nat \<Rightarrow> jstring option" where
  "grp ma n = (if n < length ma then ma ! n else None)"

text \<open>
  With the \<open>g\<close> flag the scan resumes where the last match ended, one code unit further
  after an empty match. \<open>gscan\<close> returns the matches in order; \<open>skip\<close> counts the
  code units still inside the last match.
\<close>

fun gscan :: "bool \<Rightarrow> rx \<Rightarrow> nat \<Rightarrow> nat option \<Rightarrow> jstring \<Rightarrow> nat \<Rightarrow> (nat \<times> mres) list" where
  "gscan ci r p pv [] skip =
     (if skip = 0 then (case matcher ci r accept (St p pv [] []) of Some z \<Rightarrow> [(p, z)] | None \<Rightarrow> []) else [])"
| "gscan ci r p pv (c # cs) skip =
     (if 0 < skip then gscan ci r (p + 1) (Some c) cs (skip - 1)
      else (case matcher ci r accept (St p pv (c # cs) []) of
              None \<Rightarrow> gscan ci r (p + 1) (Some c) cs 0
            | Some z \<Rightarrow> (p, z) # gscan ci r (p + 1) (Some c) cs (fst z - p - 1)))"

definition gmatch :: "jstring \<Rightarrow> bool \<Rightarrow> rx \<Rightarrow> jstring list" where
  \<comment> \<open>\<open>s.match(r)\<close> for \<open>r\<close> with the \<open>g\<close> flag; the empty list stands for \<open>null\<close>\<close>
  "gmatch s ci r = map (\<lambda>z. substring s (fst z) (fst (snd z))) (gscan ci r 0 None s 0)"

fun cutSpans :: "(nat \<times> nat) list \<Rightarrow> nat \<Rightarrow> jstring \<Rightarrow> jstring" where
  "cutSpans sp i [] = []"
| "cutSpans sp i (c # cs) =
     (if list_ex (\<lambda>ab. fst ab \<le> i \<and> i < snd ab) sp then cutSpans sp (i + 1) cs
      else c # cutSpans sp (i + 1) cs)"

definition removeAll :: "jstring \<Rightarrow> bool \<Rightarrow> rx \<Rightarrow> jstring" where
  \<comment> \<open>\<open>s.replace(r, '')\<close> for \<open>r\<close> with the \<open>g\<close> flag\<close>
  "removeAll s ci r = cutSpans (map (\<lambda>z. (fst z, fst (snd z))) (gscan ci r 0 None s 0)) 0 s"

subsection \<open>Patterns built at run time\<close>

text \<open>
  \<open>new RegExp(source)\<close> parses its argument and throws a SyntaxError when it is not a
  pattern. The route builds such patterns from the two technology names, which the
  request validation restricts to letters, digits, white space and \<open>. - + #\<close>. The
  constructor is modelled on the pattern language those sources can contain, together
  with groups, alternation, the other two quantifiers and the anchors: a literal, the
  dot, \<open>+ * ?\<close> after an atom (and \<open>?\<close> once more for the lazy form), \<open>( )\<close>, \<open>|\<close>, \<open>^\<close>,
  \<open>$\<close> and \<open>\b\<close>. A quantifier with nothing to repeat, an unbalanced parenthesis and a
  trailing backslash are syntax errors. A source with a character class, a brace, a
  group modifier or another escape is outside the modelled language and is reported as
  an error as well. \<open>None\<close> stands for the thrown SyntaxError.
\<close>

datatype tag = Atom | Greedy | Fixed

datatype frame = Frame (done_alts: "rx list") (terms: "(rx \<times> tag) list") (gnum: nat)

definition frameRx :: "frame \<Rightarrow> rx" where
  "frameRx f = alts (rev (seqs (rev (map fst (terms f))) # done_alts f))"

fun lazyOf :: "rx \<Rightarrow> rx" where
  "lazyOf (Rep g lo hi r) = Rep False lo hi r"
| "lazyOf r = r"

fun addTerm :: "rx \<times> tag \<Rightarrow> frame list \<Rightarrow> frame list" where
  "addTerm t [] = []"
| "addTerm t (Frame ds ts n # st) = Frame ds (t # ts) n # st"

fun quantify :: "nat \<Rightarrow> frame list \<Rightarrow> frame list option" where
  "quantify q (Frame ds ((a, Atom) # ts) n # st) =
     Some (Frame ds ((if q = 43 then Rep True (Suc 0) None a
                     else if q = 42 then Rep True 0 None a
                     else Rep True 0 (Some (Suc 0)) a, Greedy) # ts) n # st)"
| "quantify q (Frame ds ((a, Greedy) # ts) n # st) =
     (if q = 63 then Some (Frame ds ((lazyOf a, Fixed) # ts) n # st) else None)"
| "quantify q st = None"

fun parseRx :: "frame list \<Rightarrow> nat \<Rightarrow> bool \<Rightarrow> jstring \<Rightarrow> rx option" where
  "parseRx st n esc [] =
     (if esc then None
      else (case st of [f] \<Rightarrow> Some (frameRx f) | _ \<Rightarrow> None))"
| "parseRx st n esc (c # cs) =
     (if esc then (if c = 98 then parseRx (addTerm (Wb, Fixed) st) n False cs else None)
      else if c = 92 then parseRx st n True cs
      else if c = 40 then
        (case cs of [] \<Rightarrow> None
         | d # _ \<Rightarrow> if d = 63 then None else parseRx (Frame [] [] n # st) (Suc n) False cs)
      else if c = 41 then
        (case st of f # g # st' \<Rightarrow> parseRx (addTerm (Grp (gnum f) (frameRx f), Atom) (g # st')) n False cs
         | _ \<Rightarrow> None)
      else if c = 124 then
        (case st of [] \<Rightarrow> None
         | f # st' \<Rightarrow> parseRx (Frame (seqs (rev (map fst (terms f))) # done_alts f) [] (gnum f) # st') n False cs)
      else if c = 43 \<or> c = 42 \<or> c = 63 then
        (case quantify c st of None \<Rightarrow> None | Some st' \<Rightarrow> parseRx st' n False cs)
      else if c = 46 then parseRx (addTerm (Dot, Atom) st) n False cs
      else if c = 94 then parseRx (addTerm (Bol, Fixed) st) n False cs
      else if c = 36 then parseRx (addTerm (Eol, Fixed) st) n False cs
      else if c = 91 \<or> c = 123 then None
      else parseRx (addTerm (Chr c, Atom) st) n False cs)"

definition RegExp_new :: "jstring \<Rightarrow> rx option" where
  "RegExp_new src = parseRx [Frame [] [] 0] (Suc 0) False src"

section \<open>Results and exceptions\<close>

text \<open>
  Every parser of the route returns \<open>{success: true, data}\<close> or
  \<open>{success: false, error}\<close>; the error texts are modelled by datatypes that keep what
  the text interpolates. A thrown exception is the left summand of a sum.
\<close>

datatype ('e, 'a) result = Failure 'e | Success 'a

datatype exn = SyntaxError jstring

definition tryCatch :: "exn + 'a \<Rightarrow> (exn \<Rightarrow> exn + 'a) \<Rightarrow> exn + 'a" where
  "tryCatch body handler = (case body of Inl e \<Rightarrow> handler e | Inr v \<Rightarrow> Inr v)"

section \<open>extractSections\<close>

datatype skey = K_matchup | K_taleOfTheTape | K_verdicts | K_hiddenTax | K_tieBreaker

datatype sections = Sections (matchupS: jstring) (taleOfTheTapeS: jstring) (verdictsS: jstring)
  (hiddenTaxS: jstring) (tieBreakerS: jstring)

datatype extractError =
    ResponseNotString        \<comment> \<open>\<open>Response is not a valid string\<close>\<close>
  | ResponseEmpty            \<comment> \<open>\<open>Response is empty\<close>\<close>
  | SectionMissing skey jstring
      \<comment> \<open>\<open>Missing or empty section: key. Response preview: ...\<close>\<close>

definition heading :: "string \<Rightarrow> rx" where
  \<comment> \<open>\<open>###\s*N\.\<close>\<close>
  "heading n = seqs [lit ''###'', Star WS, lit n, Chr 46]"

definition sectionRx :: "string \<Rightarrow> rx \<Rightarrow> string \<Rightarrow> rx \<Rightarrow> rx" where
  "sectionRx n emoji label stop =
     seqs [heading n, StarL Dot, Alt emoji (lit label), Star WS, Grp 1 (StarL AnyCh), stop]"

definition patterns :: "(skey \<times> rx) list" where
  "patterns =
    [(K_matchup, sectionRx ''1'' (Seq (Chr 0xD83E) (Chr 0xDD4A)) ''Matchup'' (Look (Alt (heading ''2'') Eol))),
     (K_taleOfTheTape, sectionRx ''2'' (Seq (Chr 0xD83D) (Chr 0xDCCA)) ''Tale of the Tape'' (Look (Alt (heading ''3'') Eol))),
     (K_verdicts, sectionRx ''3'' (Seq (Chr 0x2696) (Chr 0xFE0F)) ''Verdicts'' (Look (Alt (heading ''4'') Eol))),
     (K_hiddenTax, sectionRx ''4'' (Seq (Chr 0x26A0) (Chr 0xFE0F)) ''Hidden Tax'' (Look (Alt (heading ''5'') Eol))),
     (K_tieBreaker, sectionRx ''5'' (Seq (Chr 0xD83C) (Chr 0xDFC1)) ''Tie-Breaker'' Eol)]"

definition sectionContent :: "jstring \<Rightarrow> rx \<Rightarrow> jstring option" where
  \<comment> \<open>the trimmed capture of a section pattern, when it matches with a non-blank capture\<close>
  "sectionContent s pat =
     (case rmatch s True pat of
        None \<Rightarrow> None
      | Some ma \<Rightarrow> if \<not> truthy (grp ma 1) \<or> trim (textOf (grp ma 1)) = [] then None
                   else Some (trim (textOf (grp ma 1))))"

fun extractLoop :: "jstring \<Rightarrow> (skey \<times> rx) list \<Rightarrow> (skey \<Rightarrow> jstring) \<Rightarrow> (extractError, skey \<Rightarrow> jstring) result" where
  "extractLoop s [] secs = Success secs"
| "extractLoop s ((key, pat) # ps) secs =
     (case sectionContent s pat of
        None \<Rightarrow> Failure (SectionMissing key (take 200 s))
      | Some c \<Rightarrow> extractLoop s ps (secs(key := c)))"

definition extractSections :: "jstring \<Rightarrow> (extractError, sections) result" where
  "extractSections response =
     (if response = [] then Failure ResponseNotString
      else if trim response = [] then Failure ResponseEmpty
      else (case extractLoop (trim response) patterns (\<lambda>k. []) of
              Failure e \<Rightarrow> Failure e
            | Success secs \<Rightarrow>
                Success (Sections (secs K_matchup) (secs K_taleOfTheTape) (secs K_verdicts)
                           (secs K_hiddenTax) (secs K_tieBreaker))))"

section \<open>parseTaleOfTheTape\<close>

datatype dim = Speed | Cost | DeveloperExperience | Scalability | Maintainability

definition dimensions :: "dim list" where
  "dimensions = [Speed, Cost, DeveloperExperience, Scalability, Maintainability]"

fun label :: "dim \<Rightarrow> string" where
  "label Speed = ''Speed''"
| "label Cost = ''Cost''"
| "label DeveloperExperience = ''Developer Experience''"
| "label Scalability = ''Scalability''"
| "label Maintainability = ''Maintainability''"

record descriptors =
  tech1 :: jstring
  tech2 :: jstring

record ComparisonMatrix =
  speed :: descriptors
  cost :: descriptors
  developerExperience :: descriptors
  scalability :: descriptors
  maintainability :: descriptors

datatype tapeError =
    TapeNotString            \<comment> \<open>\<open>Tale of the Tape content is not a valid string\<close>\<close>
  | TapeEmpty                \<comment> \<open>\<open>Tale of the Tape content is empty\<close>\<close>
  | TapeNamesInvalid         \<comment> \<open>\<open>Technology names are invalid for Tale of the Tape parsing\<close>\<close>
  | TapeMissing "dim list" "dim list" jstring
      \<comment> \<open>\<open>Missing comparison data for: labels. Found: keys. Content: ...\<close>\<close>

text \<open>
  \<open>comparison\<close> is the partial object the function fills: the keys in insertion order,
  each with its pair of descriptors. Assigning to a key that is present replaces its value.
\<close>

type_synonym comparison = "(dim \<times> descriptors) list"

fun setKey :: "dim \<Rightarrow> descriptors \<Rightarrow> comparison \<Rightarrow> comparison" where
  "setKey k v [] = [(k, v)]"
| "setKey k v ((k', v') # c) = (if k' = k then (k, v) # c else (k', v') # setKey k v c)"

definition tableRx :: rx where
  \<comment> \<open>\<open>/\|[^|]*\|[^|]*\|[^|]*\|/g\<close>\<close>
  "tableRx = seqs [Chr 124, Star (NotIn ''|''), Chr 124, Star (NotIn ''|''), Chr 124, Star (NotIn ''|''), Chr 124]"

definition matchingDimension :: "(jstring \<Rightarrow> jstring) \<Rightarrow> jstring \<Rightarrow> dim option" where
  "matchingDimension lower dimensionName =
     find (\<lambda>d. jsIncludes (lower dimensionName) (lower (jstr (label d))) \<or>
                jsIncludes (lower (jstr (label d))) (lower dimensionName)) dimensions"

definition tableRow :: "(jstring \<Rightarrow> jstring) \<Rightarrow> jstring \<Rightarrow> comparison \<Rightarrow> comparison" where
  "tableRow lower row c =
     (let cells = filter (\<lambda>cell. cell \<noteq> []) (map trim (splitOn 124 row))
      in if 3 \<le> length cells then
           (case matchingDimension lower (cells ! 0) of
              None \<Rightarrow> c
            | Some d \<Rightarrow> setKey d \<lparr>tech1 = cells ! 1, tech2 = cells ! 2\<rparr> c)
         else c)"

definition phaseA :: "(jstring \<Rightarrow> jstring) \<Rightarrow> jstring \<Rightarrow> comparison" where
  "phaseA lower content =
     (let tableMatch = gmatch content False tableRx
      in if 2 < length tableMatch then foldl (\<lambda>c row. tableRow lower row c) [] (drop 2 tableMatch) else [])"

definition lineEnd :: rx where
  \<comment> \<open>\<open>(?=\n|$)\<close>\<close>
  "lineEnd = Look (Alt (Chr 10) Eol)"

definition cell :: rx where
  \<comment> \<open>\<open>([^|]+?)\<close> without its group\<close>
  "cell = PlusL (NotIn ''|'')"

definition lineCell :: rx where
  \<comment> \<open>\<open>([^|\n]+?)\<close> without its group\<close>
  "lineCell = PlusL (Cls True [CC 124, CC 10])"

definition wordCell :: rx where
  \<comment> \<open>\<open>([A-Za-z0-9$][^|\n]*?)\<close> without its group\<close>
  "wordCell = Seq (Cls False [CR 65 90, CR 97 122, CR 48 57, CC 36]) (StarL (Cls True [CC 124, CC 10]))"

definition dimPattern1 :: "string \<Rightarrow> rx" where
  \<comment> \<open>\<open>\|\s*D\s*\|\s*([^|]+?)\s*\|\s*([^|]+?)\s*\|\<close>\<close>
  "dimPattern1 D = seqs [Chr 124, Star WS, lit D, Star WS, Chr 124, Star WS, Grp 1 cell,
      Star WS, Chr 124, Star WS, Grp 2 cell, Star WS, Chr 124]"

definition dimPattern2 :: "string \<Rightarrow> rx" where
  \<comment> \<open>\<open>D\s*[:|]\s*([^|\n]+?)\s*\|\s*([^|\n]+?)(?=\n|$)\<close>\<close>
  "dimPattern2 D = seqs [lit D, Star WS, Cls False [CC 58, CC 124], Star WS, Grp 1 lineCell,
      Star WS, Chr 124, Star WS, Grp 2 lineCell, lineEnd]"

definition dimPattern3 :: "string \<Rightarrow> rx" where
  \<comment> \<open>\<open>D\s*\|\s*([^|]+?)\s*\|\s*([^|]+?)(?=\n|$)\<close>\<close>
  "dimPattern3 D = seqs [lit D, Star WS, Chr 124, Star WS, Grp 1 cell,
      Star WS, Chr 124, Star WS, Grp 2 cell, lineEnd]"

definition dimPattern4 :: "string \<Rightarrow> rx" where
  \<comment> \<open>\<open>\*\*D\*\*\s*\|\s*([^|]+?)\s*\|\s*([^|]+?)(?=\n|$)\<close>\<close>
  "dimPattern4 D = seqs [lit ''**'', lit D, lit ''**'', Star WS, Chr 124, Star WS, Grp 1 cell,
      Star WS, Chr 124, Star WS, Grp 2 cell, lineEnd]"

definition dimPattern5 :: "string \<Rightarrow> rx" where
  \<comment> \<open>\<open>D\s*[-:]\s*([^\n]+?)\s+vs\s+([^\n]+?)(?=\n|$)\<close>\<close>
  "dimPattern5 D = seqs [lit D, Star WS, Cls False [CC 45, CC 58], Star WS, Grp 1 (PlusL (Cls True [CC 10])),
      Plus WS, lit ''vs'', Plus WS, Grp 2 (PlusL (Cls True [CC 10])), lineEnd]"

definition dimPattern6 :: "string \<Rightarrow> rx" where
  \<comment> \<open>\<open>D[^\n]*?([A-Za-z0-9$][^|\n]*?)\s*[|\s]+([A-Za-z0-9$][^|\n]*?)(?=\n|$)\<close>\<close>
  "dimPattern6 D = seqs [lit D, StarL (Cls True [CC 10]), Grp 1 wordCell,
      Star WS, Plus (Cls False [CC 124, CSpace]), Grp 2 wordCell, lineEnd]"

definition dimPatterns :: "string \<Rightarrow> rx list" where
  "dimPatterns D = [dimPattern1 D, dimPattern2 D, dimPattern3 D, dimPattern4 D, dimPattern5 D, dimPattern6 D]"

text \<open>
  The loop over the patterns keeps the last result in \<open>match\<close>: it stops at the first
  match with two non-blank captures and otherwise ends with the result of the last pattern.
\<close>

fun dimLoop :: "jstring \<Rightarrow> rx list \<Rightarrow> jsmatch option \<Rightarrow> jsmatch option" where
  "dimLoop content [] match = match"
| "dimLoop content (p # ps) match =
     (case rmatch content True p of
        None \<Rightarrow> dimLoop content ps None
      | Some ma \<Rightarrow>
          if truthy (grp ma 1) \<and> truthy (grp ma 2) \<and> trim (textOf (grp ma 1)) \<noteq> [] \<and> trim (textOf (grp ma 2)) \<noteq> []
          then Some ma else dimLoop content ps (Some ma))"

definition boldRx :: rx where
  \<comment> \<open>\<open>/^\*\*|\*\*$/g\<close>\<close>
  "boldRx = Alt (Seq Bol (lit ''**'')) (Seq (lit ''**'') Eol)"

definition alreadyFound :: "dim \<Rightarrow> comparison \<Rightarrow> bool" where
  \<comment> \<open>\<open>comparison[dimension.toLowerCase().replace(/\s+/g, '')]\<close>: the key looked up is
      \<open>developerexperience\<close> for Developer Experience, which is never a key of the object\<close>
  "alreadyFound d c = (d \<noteq> DeveloperExperience \<and> map_of c d \<noteq> None)"

definition lineScan :: "jstring \<Rightarrow> dim \<Rightarrow> comparison \<Rightarrow> comparison" where
  "lineScan content d c =
     (if alreadyFound d c then c
      else (case dimLoop content (dimPatterns (label d)) None of
              None \<Rightarrow> c
            | Some ma \<Rightarrow>
                if truthy (grp ma 1) \<and> truthy (grp ma 2)
                then setKey d \<lparr>tech1 = removeAll (trim (textOf (grp ma 1))) False boldRx,
                                tech2 = removeAll (trim (textOf (grp ma 2))) False boldRx\<rparr> c
                else c))"

definition phaseB :: "jstring \<Rightarrow> comparison \<Rightarrow> comparison" where
  "phaseB content c = (if length c < 5 then foldl (\<lambda>c d. lineScan content d c) c dimensions else c)"

definition missingDims :: "comparison \<Rightarrow> dim list" where
  "missingDims c =
     (if map_of c Speed = None then [Speed] else []) @
     (if map_of c Cost = None then [Cost] else []) @
     (if map_of c DeveloperExperience = None then [DeveloperExperience] else []) @
     (if map_of c Scalability = None then [Scalability] else []) @
     (if map_of c Maintainability = None then [Maintainability] else [])"

definition parseTaleOfTheTape ::
  "(jstring \<Rightarrow> jstring) \<Rightarrow> jstring \<Rightarrow> jstring \<Rightarrow> jstring \<Rightarrow> (tapeError, ComparisonMatrix) result" where
  "parseTaleOfTheTape lower content t1 t2 =
     (if content = [] then Failure TapeNotString
      else if trim content = [] then Failure TapeEmpty
      else if t1 = [] \<or> t2 = [] \<or> trim t1 = [] \<or> trim t2 = [] then Failure TapeNamesInvalid
      else
        (let c = phaseB (trim content) (phaseA lower (trim content))
         in case (map_of c Speed, map_of c Cost, map_of c DeveloperExperience,
                  map_of c Scalability, map_of c Maintainability) of
              (Some v1, Some v2, Some v3, Some v4, Some v5) \<Rightarrow>
                Success \<lparr>speed = v1, cost = v2, developerExperience = v3, scalability = v4, maintainability = v5\<rparr>
            | _ \<Rightarrow> Failure (TapeMissing (missingDims c) (map fst c) (take 500 (trim content)))))"

section \<open>parseScenarios\<close>

datatype scenarioName = MoveFastTeam | ScaleTeam | BudgetTeam

definition scenarioNames :: "scenarioName list" where
  "scenarioNames = [MoveFastTeam, ScaleTeam, BudgetTeam]"

fun teamName :: "scenarioName \<Rightarrow> string" where
  "teamName MoveFastTeam = ''Move Fast Team''"
| "teamName ScaleTeam = ''Scale Team''"
| "teamName BudgetTeam = ''Budget Team''"

fun teamType :: "scenarioName \<Rightarrow> string" where
  \<comment> \<open>\<open>name.replace(' Team', '')\<close>\<close>
  "teamType MoveFastTeam = ''Move Fast''"
| "teamType ScaleTeam = ''Scale''"
| "teamType BudgetTeam = ''Budget''"

record ScenarioVerdict =
  name :: scenarioName
  winner :: jstring
  reasoning :: jstring
  context' :: jstring

datatype scenError =
    VerdictsNotString        \<comment> \<open>\<open>Verdicts content is not a valid string\<close>\<close>
  | VerdictsEmpty            \<comment> \<open>\<open>Verdicts content is empty\<close>\<close>
  | MissingScenario scenarioName jstring
      \<comment> \<open>\<open>Missing scenario: name. Content preview: ...\<close>\<close>
  | NamesNotAvailable scenarioName jstring
      \<comment> \<open>\<open>Could not determine winner for name - technology names not available. Content: ...\<close>\<close>
  | NoWinner scenarioName jstring
      \<comment> \<open>\<open>Could not determine winner for name. Content: ...\<close>\<close>
  | WrongCount nat           \<comment> \<open>\<open>Expected 3 scenarios, found n\<close>\<close>
  | ScenariosFailed exn      \<comment> \<open>\<open>Scenarios parsing failed: message\<close>\<close>

definition abc :: rx where
  \<comment> \<open>\<open>[ABC]\<close>\<close>
  "abc = Cls False [CC 65, CC 66, CC 67]"

definition captured :: rx where
  \<comment> \<open>\<open>([\s\S]*?)\<close>\<close>
  "captured = Grp 1 (StarL AnyCh)"

definition scenPattern1 :: "string \<Rightarrow> rx" where
  \<comment> \<open>\<open>\*\*Scenario [ABC] \(The 'T' Team\):\*\*\s*([\s\S]*?)(?=\*\*Scenario|$)\<close>\<close>
  "scenPattern1 T = seqs [lit ''**Scenario '', abc, lit '' (The '', Chr 39, lit T, Chr 39, lit '' Team):**'',
      Star WS, captured, Look (Alt (lit ''**Scenario'') Eol)]"

definition scenPattern2 :: "string \<Rightarrow> rx" where
  \<comment> \<open>the same with double quotes around \<open>T\<close>\<close>
  "scenPattern2 T = seqs [lit ''**Scenario '', abc, lit '' (The '', Chr 34, lit T, Chr 34, lit '' Team):**'',
      Star WS, captured, Look (Alt (lit ''**Scenario'') Eol)]"

definition scenPattern3 :: "string \<Rightarrow> rx" where
  \<comment> \<open>\<open>###\s*Scenario [ABC] \(The 'T' Team\)\s*([\s\S]*?)(?=###|$)\<close>\<close>
  "scenPattern3 T = seqs [lit ''###'', Star WS, lit ''Scenario '', abc, lit '' (The '', Chr 39, lit T, Chr 39,
      lit '' Team)'', Star WS, captured, Look (Alt (lit ''###'') Eol)]"

definition scenPattern4 :: "string \<Rightarrow> rx" where
  \<comment> \<open>\<open>\*\*Scenario [ABC]:\s*The 'T' Team\*\*\s*([\s\S]*?)(?=\*\*Scenario|$)\<close>\<close>
  "scenPattern4 T = seqs [lit ''**Scenario '', abc, Chr 58, Star WS, lit ''The '', Chr 39, lit T, Chr 39,
      lit '' Team**'', Star WS, captured, Look (Alt (lit ''**Scenario'') Eol)]"

definition scenPattern5 :: "string \<Rightarrow> rx" where
  \<comment> \<open>\<open>(?:Scenario [ABC]|\*\*.*?).*?T.*?Team.*?([\s\S]*?)(?=(?:Scenario [ABC]|\*\*.*?Team)|$)\<close>\<close>
  "scenPattern5 T = seqs [Alt (Seq (lit ''Scenario '') abc) (Seq (lit ''**'') (StarL Dot)), StarL Dot, lit T,
      StarL Dot, lit ''Team'', StarL Dot, captured,
      Look (Alt (Alt (Seq (lit ''Scenario '') abc) (seqs [lit ''**'', StarL Dot, lit ''Team''])) Eol)]"

definition scenPattern6 :: "string \<Rightarrow> rx" where
  \<comment> \<open>\<open>T.*?Team.*?([\s\S]*?)(?=(?:Scale|Budget|Move Fast).*?Team|$)\<close>\<close>
  "scenPattern6 T = seqs [lit T, StarL Dot, lit ''Team'', StarL Dot, captured,
      Look (Alt (seqs [alts [lit ''Scale'', lit ''Budget'', lit ''Move Fast''], StarL Dot, lit ''Team'']) Eol)]"

definition scenPatterns :: "string \<Rightarrow> rx list" where
  "scenPatterns T = [scenPattern1 T, scenPattern2 T, scenPattern3 T, scenPattern4 T, scenPattern5 T, scenPattern6 T]"

fun scenLoop :: "jstring \<Rightarrow> rx list \<Rightarrow> jsmatch option \<Rightarrow> jsmatch option" where
  "scenLoop content [] match = match"
| "scenLoop content (p # ps) match =
     (case rmatch content True p of
        None \<Rightarrow> scenLoop content ps None
      | Some ma \<Rightarrow>
          if truthy (grp ma 1) \<and> 10 < length (trim (textOf (grp ma 1))) then Some ma
          else scenLoop content ps (Some ma))"

definition techName :: rx where
  \<comment> \<open>\<open>[A-Za-z0-9\s.+-]\<close>\<close>
  "techName = Cls False [CR 65 90, CR 97 122, CR 48 57, CSpace, CC 46, CC 43, CC 45]"

definition letter :: rx where
  \<comment> \<open>\<open>[A-Za-z]\<close>\<close>
  "letter = Cls False [CR 65 90, CR 97 122]"

definition techWords :: rx where
  \<comment> \<open>\<open>([A-Za-z][A-Za-z0-9\s.+-]*)\<close>\<close>
  "techWords = Grp 1 (Seq letter (Star techName))"

definition winnerPatterns :: "rx list" where
  "winnerPatterns =
    [ seqs [lit ''Which wins?'', Star WS,
            Grp 1 (Seq (Star (Cls True [CC 46, CC 33, CC 63, CC 10])) (Cls False [CC 46, CC 33, CC 63]))],
      seqs [Alt (lit ''Winner'') (Seq (lit ''win'') (Opt (Chr 115))), Chr 58, Star WS,
            Grp 1 (Plus (Cls True [CC 46, CC 10]))],
      seqs [techWords, Plus WS, lit ''wins''],
      seqs [techWords, Plus WS, alts [lit ''could be seen as'', lit ''is'', lit ''would be''], Plus WS,
            Opt (Seq (lit ''the'') (Plus WS)), lit ''winner''],
      seqs [alts [lit ''go with'', lit ''choose'', lit ''pick'', lit ''use''], Plus WS, techWords],
      seqs [techWords, Plus WS, Alt (lit ''is'') (lit ''would be''), Plus WS,
            alts [lit ''better'', lit ''preferred'', lit ''recommended'']],
      seqs [Wb, Grp 1 (Seq letter (Rep True 2 None techName)), Wb, Star Dot,
            alts [lit ''advantage'', lit ''benefit'', lit ''better'', lit ''superior'', lit ''preferred'']] ]"

text \<open>
  The winner patterns, in the order of the source:
  \<^verbatim>\<open>/Which wins\?\s*([^.!?\n]*[.!?])/i\<close>,
  \<^verbatim>\<open>/(?:Winner|wins?):\s*([^.\n]+)/i\<close>,
  \<^verbatim>\<open>/([A-Za-z][A-Za-z0-9\s.+-]*)\s+wins/i\<close>,
  \<^verbatim>\<open>/([A-Za-z][A-Za-z0-9\s.+-]*)\s+(?:could be seen as|is|would be)\s+(?:the\s+)?winner/i\<close>,
  \<^verbatim>\<open>/(?:go with|choose|pick|use)\s+([A-Za-z][A-Za-z0-9\s.+-]*)/i\<close>,
  \<^verbatim>\<open>/([A-Za-z][A-Za-z0-9\s.+-]*)\s+(?:is|would be)\s+(?:better|preferred|recommended)/i\<close>,
  \<^verbatim>\<open>/\b([A-Za-z][A-Za-z0-9\s.+-]{2,})\b.*(?:advantage|benefit|better|superior|preferred)/i\<close>.
  The reasoning patterns:
  \<^verbatim>\<open>/Why\?\s*([^]*?)(?=Which wins|$)/i\<close>,
  \<^verbatim>\<open>/(?:Reason|Because):\s*([^]*?)$/i\<close>,
  \<^verbatim>\<open>/(?:wins?|winner|better|preferred)\.?\s*([^]*?)$/i\<close>,
  \<^verbatim>\<open>/([^]*)/\<close>.
\<close>

fun winnerLoop :: "jstring \<Rightarrow> rx list \<Rightarrow> jsmatch option \<Rightarrow> jsmatch option" where
  "winnerLoop sc [] match = match"
| "winnerLoop sc (p # ps) match =
     (case rmatch sc True p of
        None \<Rightarrow> winnerLoop sc ps None
      | Some ma \<Rightarrow>
          if truthy (grp ma 1) \<and> trim (textOf (grp ma 1)) \<noteq> [] then Some ma
          else winnerLoop sc ps (Some ma))"

definition anyText :: rx where
  \<comment> \<open>\<open>([^]*?)\<close>\<close>
  "anyText = Grp 1 (StarL (Cls True []))"

definition reasoningPatterns :: "(bool \<times> rx) list" where
  "reasoningPatterns =
    [ (True, seqs [lit ''Why?'', Star WS, anyText, Look (Alt (lit ''Which wins'') Eol)]),
      (True, seqs [Alt (lit ''Reason'') (lit ''Because''), Chr 58, Star WS, anyText, Eol]),
      (True, seqs [alts [Seq (lit ''win'') (Opt (Chr 115)), lit ''winner'', lit ''better'', lit ''preferred''],
                   Opt (Chr 46), Star WS, anyText, Eol]),
      (False, Grp 1 (Star (Cls True []))) ]"

fun reasoningLoop :: "jstring \<Rightarrow> (bool \<times> rx) list \<Rightarrow> jsmatch option \<Rightarrow> jsmatch option" where
  "reasoningLoop sc [] match = match"
| "reasoningLoop sc ((ci, p) # ps) match =
     (case rmatch sc ci p of
        None \<Rightarrow> reasoningLoop sc ps None
      | Some ma \<Rightarrow>
          if truthy (grp ma 1) \<and> 10 < length (trim (textOf (grp ma 1))) then Some ma
          else reasoningLoop sc ps (Some ma))"

definition winnerText :: "jsmatch option \<Rightarrow> jstring option" where
  \<comment> \<open>\<open>winnerMatch[1]\<close> when \<open>winnerMatch && winnerMatch[1] && winnerMatch[1].trim().length > 0\<close>\<close>
  "winnerText match =
     (case match of
        None \<Rightarrow> None
      | Some ma \<Rightarrow> if truthy (grp ma 1) \<and> trim (textOf (grp ma 1)) \<noteq> [] then Some (textOf (grp ma 1)) else None)"

definition reasoningText :: "jstring \<Rightarrow> jsmatch option \<Rightarrow> jstring" where
  \<comment> \<open>\<open>reasoningMatch[1]\<close> after the two defaults to the scenario content\<close>
  "reasoningText scenarioContent match =
     (let reasoningMatch =
            (case match of
               None \<Rightarrow> [Some scenarioContent, Some scenarioContent]
             | Some ma \<Rightarrow>
                 if \<not> truthy (grp ma 1) \<or> length (trim (textOf (grp ma 1))) < 10
                 then [Some scenarioContent, Some scenarioContent] else ma)
      in if \<not> truthy (grp reasoningMatch 1) \<or> trim (textOf (grp reasoningMatch 1)) = []
         then trim scenarioContent else textOf (grp reasoningMatch 1))"

definition positiveWords :: "string list" where
  "positiveWords = [''winner'', ''better'', ''preferred'', ''advantage'', ''superior'', ''recommended'',
     ''choose'', ''go with'']"

definition positiveContext :: "jstring \<Rightarrow> jstring \<Rightarrow> string \<Rightarrow> bool" where
  "positiveContext contentLower techLower word =
     (jsIncludes contentLower (techLower @ [32] @ jstr word) \<or>
      jsIncludes contentLower (jstr word @ [32] @ techLower))"

fun positiveLoop :: "jstring \<Rightarrow> jstring \<Rightarrow> jstring \<Rightarrow> jstring \<Rightarrow> jstring \<Rightarrow> string list \<Rightarrow> jstring" where
  "positiveLoop contentLower t1 t2 tech1Lower tech2Lower [] = []"
| "positiveLoop contentLower t1 t2 tech1Lower tech2Lower (word # ws) =
     (let tech1Context = positiveContext contentLower tech1Lower word;
          tech2Context = positiveContext contentLower tech2Lower word
      in if tech1Context \<and> \<not> tech2Context then t1
         else if tech2Context \<and> \<not> tech1Context then t2
         else positiveLoop contentLower t1 t2 tech1Lower tech2Lower ws)"

definition newRegExp :: "(jstring \<Rightarrow> rx option) \<Rightarrow> jstring \<Rightarrow> exn + rx" where
  "newRegExp ctor src = (case ctor src of None \<Rightarrow> Inl (SyntaxError src) | Some r \<Rightarrow> Inr r)"

definition techPatternSource :: "jstring \<Rightarrow> jstring \<Rightarrow> jstring" where
  \<comment> \<open>the source text \<open>\b(t1|t2)\b\<close> of the template literal\<close>
  "techPatternSource tech1Lower tech2Lower = [92, 98, 40] @ tech1Lower @ [124] @ tech2Lower @ [41, 92, 98]"

text \<open>
  The fallback of the winner extraction. \<open>ctor\<close> is the RegExp constructor of the host
  and \<open>lower\<close> its \<open>toLowerCase\<close>; the two mention counts are computed first, so a name
  that is not a pattern throws before any heuristic runs.
\<close>

definition fallbackWinner ::
  "(jstring \<Rightarrow> rx option) \<Rightarrow> (jstring \<Rightarrow> jstring) \<Rightarrow> jstring \<Rightarrow> jstring \<Rightarrow> jstring \<Rightarrow> exn + jstring" where
  "fallbackWinner ctor lower scenarioContent t1 t2 =
     (let tech1Lower = lower t1;
          tech2Lower = lower t2;
          contentLower = lower scenarioContent
      in case newRegExp ctor tech1Lower of Inl e \<Rightarrow> Inl e | Inr r1 \<Rightarrow>
         (case newRegExp ctor tech2Lower of Inl e \<Rightarrow> Inl e | Inr r2 \<Rightarrow>
         (let tech1Mentions = length (gmatch contentLower False r1);
              tech2Mentions = length (gmatch contentLower False r2);
              byContext = positiveLoop contentLower t1 t2 tech1Lower tech2Lower positiveWords
          in if byContext \<noteq> [] then Inr byContext
             else if tech2Mentions < tech1Mentions then Inr t1
             else if tech1Mentions < tech2Mentions then Inr t2
             else (case newRegExp ctor (techPatternSource tech1Lower tech2Lower) of
                     Inl e \<Rightarrow> Inl e
                   | Inr techPattern \<Rightarrow>
                       (case rmatch scenarioContent True techPattern of
                          None \<Rightarrow> Inr t1
                        | Some firstMention \<Rightarrow> Inr (textOf (grp firstMention 1)))))))"

definition scenarioVerdict ::
  "(jstring \<Rightarrow> rx option) \<Rightarrow> (jstring \<Rightarrow> jstring) \<Rightarrow> jstring \<Rightarrow> jstring \<Rightarrow> jstring \<Rightarrow> scenarioName
     \<Rightarrow> exn + (scenError, ScenarioVerdict) result" where
  "scenarioVerdict ctor lower content t1 t2 nm =
     (case scenLoop content (scenPatterns (teamType nm)) None of
        None \<Rightarrow> Inr (Failure (MissingScenario nm (take 400 content)))
      | Some ma \<Rightarrow>
          if \<not> truthy (grp ma 1) then Inr (Failure (MissingScenario nm (take 400 content)))
          else
            (let scenarioContent = trim (textOf (grp ma 1));
                 winnerMatch = winnerLoop scenarioContent winnerPatterns None;
                 reasoningMatch = reasoningLoop scenarioContent reasoningPatterns None;
                 verdict = (\<lambda>w. \<lparr>name = nm, winner = trim w,
                                   reasoning = trim (reasoningText scenarioContent reasoningMatch),
                                   context' = jstr (teamName nm) @ jstr '' scenario analysis''\<rparr>)
             in case winnerText winnerMatch of
                  Some w \<Rightarrow> Inr (Success (verdict w))
                | None \<Rightarrow>
                    if t1 = [] \<or> t2 = [] then Inr (Failure (NamesNotAvailable nm (take 200 scenarioContent)))
                    else (case fallbackWinner ctor lower scenarioContent t1 t2 of
                            Inl e \<Rightarrow> Inl e
                          | Inr w \<Rightarrow> if w \<noteq> [] then Inr (Success (verdict w))
                                     else Inr (Failure (NoWinner nm (take 200 scenarioContent))))))"

fun scenariosLoop ::
  "(jstring \<Rightarrow> rx option) \<Rightarrow> (jstring \<Rightarrow> jstring) \<Rightarrow> jstring \<Rightarrow> jstring \<Rightarrow> jstring \<Rightarrow> scenarioName list
     \<Rightarrow> ScenarioVerdict list \<Rightarrow> exn + (scenError, ScenarioVerdict list) result" where
  "scenariosLoop ctor lower content t1 t2 [] scenarios =
     Inr (if length scenarios \<noteq> 3 then Failure (WrongCount (length scenarios)) else Success scenarios)"
| "scenariosLoop ctor lower content t1 t2 (nm # nms) scenarios =
     (case scenarioVerdict ctor lower content t1 t2 nm of
        Inl e \<Rightarrow> Inl e
      | Inr (Failure err) \<Rightarrow> Inr (Failure err)
      | Inr (Success v) \<Rightarrow> scenariosLoop ctor lower content t1 t2 nms (scenarios @ [v]))"

definition parseScenarios_try ::
  "(jstring \<Rightarrow> rx option) \<Rightarrow> (jstring \<Rightarrow> jstring) \<Rightarrow> jstring \<Rightarrow> jstring \<Rightarrow> jstring
     \<Rightarrow> exn + (scenError, ScenarioVerdict list) result" where
  "parseScenarios_try ctor lower content t1 t2 =
     (if content = [] then Inr (Failure VerdictsNotString)
      else if trim content = [] then Inr (Failure VerdictsEmpty)
      else scenariosLoop ctor lower (trim content) t1 t2 scenarioNames [])"

definition parseScenarios ::
  "(jstring \<Rightarrow> rx option) \<Rightarrow> (jstring \<Rightarrow> jstring) \<Rightarrow> jstring \<Rightarrow> jstring \<Rightarrow> jstring
     \<Rightarrow> exn + (scenError, ScenarioVerdict list) result" where
  "parseScenarios ctor lower content t1 t2 =
     tryCatch (parseScenarios_try ctor lower content t1 t2) (\<lambda>e. Inr (Failure (ScenariosFailed e)))"

section \<open>parseHiddenTax\<close>

record HiddenTax =
  technology :: jstring
  warning :: jstring
  timeframe :: jstring
  impact :: jstring

datatype taxError =
    TaxNotString             \<comment> \<open>\<open>Hidden Tax content is not a valid string\<close>\<close>
  | TaxEmpty                 \<comment> \<open>\<open>Hidden Tax content is empty\<close>\<close>
  | TaxNoMatch jstring       \<comment> \<open>\<open>Hidden Tax format does not match expected pattern. Content: ...\<close>\<close>
  | TaxTechnologyEmpty       \<comment> \<open>\<open>Technology name is empty in Hidden Tax\<close>\<close>
  | TaxWarningEmpty          \<comment> \<open>\<open>Warning text is empty in Hidden Tax\<close>\<close>

definition noneOf :: "string \<Rightarrow> rx" where
  "noneOf s = Cls True (map (\<lambda>c. CC (of_char c)) s @ [CC 10])"

definition standardTax :: rx where
  \<comment> \<open>\<open>/If you choose\s+([^,]+),\s*be prepared to pay the tax of\s+([^.]+)\s+in\s+([^.]+)/i\<close>\<close>
  "standardTax = seqs [lit ''If you choose'', Plus WS, Grp 1 (Plus (NotIn '','')), Chr 44, Star WS,
      lit ''be prepared to pay the tax of'', Plus WS, Grp 2 (Plus (NotIn ''.'')), Plus WS, lit ''in'', Plus WS,
      Grp 3 (Plus (NotIn ''.''))]"

definition alternativeTax0 :: rx where
  \<comment> \<open>\<open>/If you choose\s+([^,]+),?\s*be prepared to pay the tax of\s+([^.!?]+)[.!?]?\s*in\s+([^.!?]+)/i\<close>\<close>
  "alternativeTax0 = seqs [lit ''If you choose'', Plus WS, Grp 1 (Plus (NotIn '','')), Opt (Chr 44), Star WS,
      lit ''be prepared to pay the tax of'', Plus WS, Grp 2 (Plus (NotIn ''.!?'')),
      Opt (Cls False [CC 46, CC 33, CC 63]), Star WS, lit ''in'', Plus WS, Grp 3 (Plus (NotIn ''.!?''))]"

definition alternativeTax1 :: rx where
  \<comment> \<open>\<open>/If you choose\s+([^,]+),?\s*be prepared to pay the tax of\s+([^.!?]+)/i\<close>\<close>
  "alternativeTax1 = seqs [lit ''If you choose'', Plus WS, Grp 1 (Plus (NotIn '','')), Opt (Chr 44), Star WS,
      lit ''be prepared to pay the tax of'', Plus WS, Grp 2 (Plus (NotIn ''.!?''))]"

definition alternativeTax2 :: rx where
  \<comment> \<open>\<open>/choose\s+([^,]+).*?tax.*?of\s+([^.!?\n]+).*?in\s+([^.!?\n]+)/i\<close>\<close>
  "alternativeTax2 = seqs [lit ''choose'', Plus WS, Grp 1 (Plus (NotIn '','')), StarL Dot, lit ''tax'', StarL Dot,
      lit ''of'', Plus WS, Grp 2 (Plus (noneOf ''.!?'')), StarL Dot, lit ''in'', Plus WS,
      Grp 3 (Plus (noneOf ''.!?''))]"

definition alternativeTax3 :: rx where
  \<comment> \<open>\<open>/tax\s+of\s+([^.!?\n]+)(?:\s+in\s+([^.!?\n]+))?/i\<close>\<close>
  "alternativeTax3 = seqs [lit ''tax'', Plus WS, lit ''of'', Plus WS, Grp 1 (Plus (noneOf ''.!?'')),
      Opt (seqs [Plus WS, lit ''in'', Plus WS, Grp 2 (Plus (noneOf ''.!?''))])]"

definition alternativeTax4 :: rx where
  \<comment> \<open>\<open>/([A-Za-z][A-Za-z0-9\s.+-]+).*?(?:tax|cost|downside|problem).*?([^.!?\n]+)/i\<close>\<close>
  "alternativeTax4 = seqs [Grp 1 (Seq letter (Plus techName)), StarL Dot,
      alts [lit ''tax'', lit ''cost'', lit ''downside'', lit ''problem''], StarL Dot,
      Grp 2 (Plus (noneOf ''.!?''))]"

definition alternativePatterns :: "(nat \<times> rx) list" where
  "alternativePatterns =
     [(0, alternativeTax0), (1, alternativeTax1), (2, alternativeTax2), (3, alternativeTax3), (4, alternativeTax4)]"

definition fallbackTech :: rx where
  \<comment> \<open>\<open>/\b([A-Za-z][A-Za-z0-9\s.+-]{2,20})\b/g\<close>\<close>
  "fallbackTech = seqs [Wb, Grp 1 (Seq letter (Rep True 2 (Some 20) techName)), Wb]"

definition warningPattern :: rx where
  \<comment> \<open>\<open>/(complexity|maintenance|learning curve|cost|overhead|difficulty|challenge|problem|issue|burden)[^.!?\n]*/i\<close>\<close>
  "warningPattern = seqs [Grp 1 (alts [lit ''complexity'', lit ''maintenance'', lit ''learning curve'', lit ''cost'',
      lit ''overhead'', lit ''difficulty'', lit ''challenge'', lit ''problem'', lit ''issue'', lit ''burden'']),
      Star (noneOf ''.!?'')]"

definition setGrp :: "jsmatch \<Rightarrow> nat \<Rightarrow> jstring \<Rightarrow> jsmatch" where
  \<comment> \<open>\<open>match[n] = v\<close>\<close>
  "setGrp ma n v = take n (ma @ replicate n None) @ [Some v] @ drop (Suc n) ma"

fun alternativesLoop :: "jstring \<Rightarrow> (nat \<times> rx) list \<Rightarrow> jsmatch option \<Rightarrow> jsmatch option" where
  "alternativesLoop content [] taxMatch = taxMatch"
| "alternativesLoop content ((i, p) # ps) taxMatch =
     (case rmatch content True p of
        None \<Rightarrow> alternativesLoop content ps None
      | Some ma \<Rightarrow>
          if truthy (grp ma 1) \<and> truthy (grp ma 2)
          then Some (if \<not> truthy (grp ma 3) \<and> i < 4 then setGrp ma 3 (jstr ''6 months'') else ma)
          else alternativesLoop content ps (Some ma))"

definition complete3 :: "jsmatch option \<Rightarrow> bool" where
  \<comment> \<open>\<open>taxMatch && taxMatch[1] && taxMatch[2] && taxMatch[3]\<close>\<close>
  "complete3 taxMatch = (case taxMatch of None \<Rightarrow> False
     | Some ma \<Rightarrow> truthy (grp ma 1) \<and> truthy (grp ma 2) \<and> truthy (grp ma 3))"

definition taxMatchOf :: "jstring \<Rightarrow> jsmatch option" where
  "taxMatchOf content =
     (let taxMatch = rmatch content True standardTax
      in if complete3 taxMatch then taxMatch else alternativesLoop content alternativePatterns taxMatch)"

definition lastResort :: "jstring \<Rightarrow> (taxError, HiddenTax) result" where
  "lastResort content =
     (case (rmatch content False fallbackTech, rmatch content True warningPattern) of
        (Some techMatch, Some warningMatch) \<Rightarrow>
          Success \<lparr>technology = trim (textOf (grp techMatch 1)), warning = trim (textOf (grp warningMatch 0)),
                   timeframe = jstr ''6 months'',
                   impact = trim (textOf (grp warningMatch 0)) @ jstr '' expected in '' @ jstr ''6 months''\<rparr>
      | _ \<Rightarrow> Failure (TaxNoMatch (take 200 content)))"

definition parseHiddenTax :: "jstring \<Rightarrow> (taxError, HiddenTax) result" where
  "parseHiddenTax content =
     (if content = [] then Failure TaxNotString
      else if trim content = [] then Failure TaxEmpty
      else
        (case taxMatchOf (trim content) of
           None \<Rightarrow> lastResort (trim content)
         | Some ma \<Rightarrow>
             if \<not> truthy (grp ma 1) \<or> \<not> truthy (grp ma 2) then lastResort (trim content)
             else
               (let technology = trim (textOf (grp ma 1));
                    warning = trim (textOf (grp ma 2));
                    timeframe = (if truthy (grp ma 3) then trim (textOf (grp ma 3)) else jstr ''6 months'')
                in if technology = [] then Failure TaxTechnologyEmpty
                   else if warning = [] then Failure TaxWarningEmpty
                   else Success \<lparr>technology = technology, warning = warning, timeframe = timeframe,
                                  impact = warning @ jstr '' expected in '' @ timeframe\<rparr>)))"

section \<open>parseLLMResponse\<close>

datatype details =
    NoDetails
  | Text string
  | OfSections extractError
  | OfTape tapeError
  | OfScenarios scenError
  | OfHiddenTax taxError
  | OfException exn

record ApiError =
  code :: string
  message :: string
  details :: details
  timestamp :: jstring

record Matchup =
  technology1 :: jstring
  technology2 :: jstring

record RefereeAnalysis =
  matchup :: Matchup
  taleOfTheTape :: ComparisonMatrix
  scenarios :: "ScenarioVerdict list"
  hiddenTax :: HiddenTax
  tieBreaker :: jstring

text \<open>
  Every error object carries \<open>new Date().toISOString()\<close>; \<open>now\<close> is that reading of the
  clock.
\<close>

definition parsingError :: "jstring \<Rightarrow> string \<Rightarrow> details \<Rightarrow> ApiError" where
  "parsingError now msg det = \<lparr>code = ''PARSING_ERROR'', message = msg, details = det, timestamp = now\<rparr>"

definition assemble ::
  "(jstring \<Rightarrow> rx option) \<Rightarrow> (jstring \<Rightarrow> jstring) \<Rightarrow> jstring \<Rightarrow> sections \<Rightarrow> jstring \<Rightarrow> jstring
     \<Rightarrow> exn + (ApiError, RefereeAnalysis) result" where
  \<comment> \<open>the body of the \<open>try\<close> block after the section extraction\<close>
  "assemble ctor lower now secs t1 t2 =
     (case parseTaleOfTheTape lower (taleOfTheTapeS secs) t1 t2 of
        Failure e \<Rightarrow> Inr (Failure (parsingError now ''Failed to parse Tale of the Tape section'' (OfTape e)))
      | Success tape \<Rightarrow>
        (case parseScenarios ctor lower (verdictsS secs) t1 t2 of
           Inl x \<Rightarrow> Inl x
         | Inr (Failure e) \<Rightarrow> Inr (Failure (parsingError now ''Failed to parse Verdicts section'' (OfScenarios e)))
         | Inr (Success verdicts) \<Rightarrow>
           (case parseHiddenTax (hiddenTaxS secs) of
              Failure e \<Rightarrow> Inr (Failure (parsingError now ''Failed to parse Hidden Tax section'' (OfHiddenTax e)))
            | Success tax \<Rightarrow>
                if trim (tieBreakerS secs) = []
                then Inr (Failure (parsingError now ''Tie-breaker question is missing or empty'' NoDetails))
                else Inr (Success \<lparr>matchup = \<lparr>technology1 = t1, technology2 = t2\<rparr>,
                                    taleOfTheTape = tape, scenarios = verdicts, hiddenTax = tax,
                                    tieBreaker = trim (tieBreakerS secs)\<rparr>))))"

definition parseLLMResponse_try ::
  "(jstring \<Rightarrow> rx option) \<Rightarrow> (jstring \<Rightarrow> jstring) \<Rightarrow> jstring \<Rightarrow> jstring \<Rightarrow> jstring \<Rightarrow> jstring
     \<Rightarrow> exn + (ApiError, RefereeAnalysis) result" where
  "parseLLMResponse_try ctor lower now response t1 t2 =
     (case extractSections response of
        Failure e \<Rightarrow> Inr (Failure (parsingError now ''Failed to parse LLM response structure'' (OfSections e)))
      | Success secs \<Rightarrow> assemble ctor lower now secs t1 t2)"

definition parseLLMResponse ::
  "(jstring \<Rightarrow> rx option) \<Rightarrow> (jstring \<Rightarrow> jstring) \<Rightarrow> jstring \<Rightarrow> jstring \<Rightarrow> jstring \<Rightarrow> jstring
     \<Rightarrow> exn + (ApiError, RefereeAnalysis) result" where
  "parseLLMResponse ctor lower now response t1 t2 =
     (if response = [] \<or> trim response = []
      then Inr (Failure (parsingError now ''LLM response is empty or invalid'' (Text ''Response must be a non-empty string'')))
      else if t1 = [] \<or> t2 = [] \<or> trim t1 = [] \<or> trim t2 = []
      then Inr (Failure (parsingError now ''Technology names are invalid''
                  (Text ''Both tech1 and tech2 must be non-empty strings'')))
      else tryCatch (parseLLMResponse_try ctor lower now response t1 t2)
             (\<lambda>e. Inr (Failure (parsingError now ''Unexpected error parsing LLM response'' (OfException e)))))"

section \<open>Rate limiting and the POST handler\<close>

text \<open>
  \<open>checkRateLimit\<close> and the gate at the head of \<open>POST\<close>, as in
  \<^verbatim>\<open>src/app/api/referee/route.ts\<close>. \<open>rateLimitMap\<close> is the module-level map, passed in and
  returned; the first argument of \<open>checkRateLimit\<close> is the value of \<open>Date.now()\<close>. What
  \<open>POST\<close> does after the gate (reading the body, building the prompt, calling the model,
  parsing the reply) is the parameter \<open>handle\<close>.
\<close>

record clientData =
  count :: nat
  resetTime :: int

type_synonym rateLimitMap = "jstring \<rightharpoonup> clientData"

definition RATE_LIMIT_WINDOW :: int where
  "RATE_LIMIT_WINDOW = 60000"

definition RATE_LIMIT_MAX_REQUESTS :: nat where
  "RATE_LIMIT_MAX_REQUESTS = 10"

definition checkRateLimit :: "int \<Rightarrow> jstring \<Rightarrow> rateLimitMap \<Rightarrow> bool \<times> rateLimitMap" where
  "checkRateLimit now clientId m =
     (case m clientId of
        None \<Rightarrow> (True, m(clientId \<mapsto> \<lparr>count = 1, resetTime = now + RATE_LIMIT_WINDOW\<rparr>))
      | Some d \<Rightarrow>
          if resetTime d < now then (True, m(clientId \<mapsto> \<lparr>count = 1, resetTime = now + RATE_LIMIT_WINDOW\<rparr>))
          else if RATE_LIMIT_MAX_REQUESTS \<le> count d then (False, m)
          else (True, m(clientId \<mapsto> d\<lparr>count := count d + 1\<rparr>)))"

record request =
  forwardedFor :: "jstring option"
  realIp :: "jstring option"

definition clientIdOf :: "'a request_scheme \<Rightarrow> jstring" where
  \<comment> \<open>\<open>headers.get('x-forwarded-for') || headers.get('x-real-ip') || 'unknown'\<close>\<close>
  "clientIdOf req =
     (if truthy (forwardedFor req) then textOf (forwardedFor req)
      else if truthy (realIp req) then textOf (realIp req)
      else jstr ''unknown'')"

datatype 'd response = ErrorResponse ApiError nat | Handled 'd

definition createErrorResponse :: "jstring \<Rightarrow> string \<Rightarrow> string \<Rightarrow> nat \<Rightarrow> 'd response" where
  "createErrorResponse stamp c msg status =
     ErrorResponse \<lparr>code = c, message = msg, details = NoDetails, timestamp = stamp\<rparr> status"

definition POST ::
  "('a request_scheme \<Rightarrow> 'd) \<Rightarrow> jstring \<Rightarrow> int \<Rightarrow> 'a request_scheme \<Rightarrow> rateLimitMap \<Rightarrow> 'd response \<times> rateLimitMap" where
  "POST handle stamp now req m =
     (case checkRateLimit now (clientIdOf req) m of
        (False, m') \<Rightarrow>
          (createErrorResponse stamp ''RATE_LIMIT_EXCEEDED'' ''Too many requests. Please wait before trying again.'' 429, m')
      | (True, m') \<Rightarrow> (Handled (handle req), m'))"

section \<open>Notions used in the statements\<close>

text \<open>The section of a given key in a section set.\<close>

fun field :: "skey \<Rightarrow> sections \<Rightarrow> jstring" where
  "field K_matchup = matchupS"
| "field K_taleOfTheTape = taleOfTheTapeS"
| "field K_verdicts = verdictsS"
| "field K_hiddenTax = hiddenTaxS"
| "field K_tieBreaker = tieBreakerS"

text \<open>The outcome of \<open>parseLLMResponse\<close> with the time stamp of an error object erased.\<close>

definition stampless ::
  "exn + (ApiError, RefereeAnalysis) result \<Rightarrow> exn + (ApiError, RefereeAnalysis) result" where
  "stampless out =
     (case out of
        Inl e \<Rightarrow> Inl e
      | Inr (Failure err) \<Rightarrow> Inr (Failure (err\<lparr>timestamp := []\<rparr>))
      | Inr (Success a) \<Rightarrow> Inr (Success a))"

text \<open>
  A run of the rate limiter over a sequence of calls, each with its reading of the clock
  and its client: \<open>admitted\<close> keeps the calls for which \<open>checkRateLimit\<close> returned
  \<open>true\<close>.
\<close>

fun admitted :: "rateLimitMap \<Rightarrow> (int \<times> jstring) list \<Rightarrow> (int \<times> jstring) list" where
  "admitted m [] = []"
| "admitted m ((t, c) # rs) =
     (if fst (checkRateLimit t c m) then (t, c) # admitted (snd (checkRateLimit t c m)) rs
      else admitted (snd (checkRateLimit t c m)) rs)"

definition inWindow :: "jstring \<Rightarrow> int \<Rightarrow> (int \<times> jstring) \<Rightarrow> bool" where
  "inWindow c limit r = (snd r = c \<and> fst r \<le> limit)"







definition keeps :: "nat list \<Rightarrow> mstate \<Rightarrow> mstate \<Rightarrow> bool" where
  "keeps gs x y = (\<forall>g. g \<notin> set gs \<longrightarrow> map_of (caps y) g = map_of (caps x) g)"



section \<open>Sample inputs\<close>

text \<open>
  A reply whose sections 2 to 5 are in the template and whose matchup section comes
  last, under a heading that occurs twice; and what the parser makes of it.
\<close>

definition reply_matchup_last :: jstring where
  "reply_matchup_last =
     jstr ''### 2. Tale of the Tape'' @ [10] @ jstr ''Speed: a | b'' @ [10] @ jstr ''Cost: c | d'' @
     [10] @ jstr ''Developer Experience: e | f'' @ [10] @ jstr ''Scalability: g | h'' @ [10] @
     jstr ''Maintainability: i | j'' @ [10] @ jstr ''### 3. Verdicts'' @ [10] @
     jstr ''Move Fast Team: Winner: React'' @ [10] @ jstr ''Scale Team: Winner: Vue'' @ [10] @
     jstr ''Budget Team: Winner: Vue'' @ [10] @ jstr ''### 4. Hidden Tax'' @ [10] @
     jstr ''If you choose React, be prepared to pay the tax of churn in 2 years.'' @ [10] @
     jstr ''### 5. Tie-Breaker'' @ [10] @ jstr ''Ship now?'' @ [10] @ jstr ''### 1. Matchup'' @ [10] @
     jstr ''SECRET'' @ [10] @ jstr ''### 1. Matchup'' @ [10] @ jstr ''Again''"

definition sections_matchup_last :: sections where
  "sections_matchup_last = Sections
     (jstr ''SECRET'' @ [10] @ jstr ''### 1. Matchup'' @ [10] @ jstr ''Again'')
     (jstr ''Speed: a | b'' @ [10] @ jstr ''Cost: c | d'' @ [10] @
       jstr ''Developer Experience: e | f'' @ [10] @ jstr ''Scalability: g | h'' @ [10] @
       jstr ''Maintainability: i | j'')
     (jstr ''Move Fast Team: Winner: React'' @ [10] @ jstr ''Scale Team: Winner: Vue'' @ [10] @
       jstr ''Budget Team: Winner: Vue'')
     (jstr ''If you choose React, be prepared to pay the tax of churn in 2 years.'')
     (jstr ''Ship now?'' @ [10] @ jstr ''### 1. Matchup'' @ [10] @ jstr ''SECRET'' @ [10] @
        jstr ''### 1. Matchup'' @ [10] @ jstr ''Again'')"

definition matrix_ok :: ComparisonMatrix where
  "matrix_ok =
     \<lparr>speed = \<lparr>tech1 = (jstr ''a''), tech2 = (jstr ''b'')\<rparr>,
      cost = \<lparr>tech1 = (jstr ''c''), tech2 = (jstr ''d'')\<rparr>,
      developerExperience = \<lparr>tech1 = (jstr ''e''), tech2 = (jstr ''f'')\<rparr>,
      scalability = \<lparr>tech1 = (jstr ''g''), tech2 = (jstr ''h'')\<rparr>,
      maintainability = \<lparr>tech1 = (jstr ''i''), tech2 = (jstr ''j'')\<rparr>\<rparr>"

definition verdicts_ok :: "ScenarioVerdict list" where
  "verdicts_ok =
     [\<lparr>name = MoveFastTeam, winner = (jstr ''React''), reasoning = (jstr '': Winner: React''),
        context' = (jstr ''Move Fast Team scenario analysis'')\<rparr>,
      \<lparr>name = ScaleTeam, winner = (jstr ''Vue''), reasoning = (jstr '': Winner: Vue''),
        context' = (jstr ''Scale Team scenario analysis'')\<rparr>,
      \<lparr>name = BudgetTeam, winner = (jstr ''Vue''), reasoning = (jstr '': Winner: Vue''),
        context' = (jstr ''Budget Team scenario analysis'')\<rparr>]"

definition hiddenTax_ok :: HiddenTax where
  "hiddenTax_ok =
     \<lparr>technology = (jstr ''React''), warning = (jstr ''churn''), timeframe = (jstr ''2 years''),
      impact = (jstr ''churn expected in 2 years'')\<rparr>"

definition analysis_matchup_last :: RefereeAnalysis where
  "analysis_matchup_last =
     \<lparr>matchup = \<lparr>technology1 = jstr ''React'', technology2 = jstr ''Vue''\<rparr>,
      taleOfTheTape = matrix_ok, scenarios = verdicts_ok, hiddenTax = hiddenTax_ok,
      tieBreaker = (jstr ''Ship now?'' @ [10] @ jstr ''### 1. Matchup'' @ [10] @ jstr ''SECRET'' @ [10] @
        jstr ''### 1. Matchup'' @ [10] @ jstr ''Again'')\<rparr>"

text \<open>
  A tape of five rows without its Cost row, whose Speed row mentions the word cost; and
  a tape whose Speed row has bold markers and nothing between them.
\<close>

definition tape_without_cost_row :: jstring where
  "tape_without_cost_row =
     jstr ''Speed: low cost here | fast'' @ [10] @ jstr ''Developer Experience: a | b'' @ [10] @
     jstr ''Scalability: c | d'' @ [10] @ jstr ''Maintainability: e | f''"

definition tape_blank_descriptors :: jstring where
  "tape_blank_descriptors =
     jstr ''Speed: ** | **'' @ [10] @ jstr ''Cost: c | d'' @ [10] @
     jstr ''Developer Experience: e | f'' @ [10] @ jstr ''Scalability: g | h'' @ [10] @
     jstr ''Maintainability: i | j''"

text \<open>Three located scenarios without any winner phrasing and without any technology name.\<close>

definition verdicts_without_winner :: jstring where
  "verdicts_without_winner =
     jstr ''Move Fast Team: ship it today'' @ [10] @ jstr ''Scale Team: it depends'' @ [10] @
     jstr ''Budget Team: hard to say''"

definition moveFast_match :: jsmatch where
  "moveFast_match = [Some (jstr ''Move Fast Team: ship it today'' @ [10]), Some (jstr '': ship it today'' @ [10])]"

text \<open>A hidden-tax sentence in the template, without a timeframe clause.\<close>

definition tax_pain_points :: jstring where
  "tax_pain_points = jstr ''If you choose React, be prepared to pay the tax of pain points later.''"



text \<open>Twelve calls of one client, one second apart.\<close>

definition client :: jstring where
  "client = jstr ''203.0.113.7''"

definition burst :: "(int \<times> jstring) list" where
  "burst = [(0, client), (1000, client), (2000, client), (3000, client), (4000, client), (5000, client),
     (6000, client), (7000, client), (8000, client), (9000, client), (10000, client), (11000, client)]"

section \<open>Evaluation\<close>

text \<open>
  The sample inputs are evaluated by rewriting with the definitions of the model. The
  lower bound of a quantifier is written as a numeral in the patterns.
\<close>

lemma rep_min_numeral [simp]:
  "rep_min g gs bm (numeral v) hi k x =
     (if hi = Some 0 then k x else bm (rep_min g gs bm (pred_numeral v) (decMax hi) k) (clearCaps gs x))"
  by (simp add: numeral_eq_Suc)

lemmas eval_defs = Let_def
  jstr_def isSpace_def isLineTerm_def isWordChar_def canon_def lowerU_def lowerLatin1_def
  trim_def substring_def truthy_def textOf_def lit_def seqs_def capture_def matchArray_def
  rmatch_def grp_def gmatch_def removeAll_def frameRx_def RegExp_new_def tryCatch_def
  heading_def sectionRx_def patterns_def sectionContent_def extractSections_def dimensions_def
  tableRx_def matchingDimension_def tableRow_def phaseA_def lineEnd_def cell_def lineCell_def
  wordCell_def dimPattern1_def dimPattern2_def dimPattern3_def dimPattern4_def dimPattern5_def
  dimPattern6_def dimPatterns_def boldRx_def alreadyFound_def lineScan_def phaseB_def
  missingDims_def parseTaleOfTheTape_def scenarioNames_def abc_def captured_def scenPattern1_def
  scenPattern2_def scenPattern3_def scenPattern4_def scenPattern5_def scenPattern6_def
  scenPatterns_def techName_def letter_def techWords_def winnerPatterns_def anyText_def
  reasoningPatterns_def winnerText_def reasoningText_def positiveWords_def positiveContext_def
  newRegExp_def techPatternSource_def fallbackWinner_def scenarioVerdict_def
  parseScenarios_try_def parseScenarios_def noneOf_def standardTax_def alternativeTax0_def
  alternativeTax1_def alternativeTax2_def alternativeTax3_def alternativeTax4_def
  alternativePatterns_def fallbackTech_def warningPattern_def setGrp_def complete3_def
  taxMatchOf_def lastResort_def parseHiddenTax_def

lemma trim_Nil [simp]: "trim [] = []"
  by (simp add: trim_def)

lemma names_valid:
  "jstr ''React'' \<noteq> []" "jstr ''Vue'' \<noteq> []" "trim (jstr ''React'') \<noteq> []" "trim (jstr ''Vue'') \<noteq> []"
  by (simp_all add: eval_defs)

lemma reply_nonempty: "reply_matchup_last \<noteq> []"
  by (simp add: reply_matchup_last_def jstr_def)

lemma reply_trim: "trim reply_matchup_last = reply_matchup_last"
  by (simp add: reply_matchup_last_def eval_defs)

lemma ev_sections: "extractSections reply_matchup_last = Success sections_matchup_last"
  by (simp add: reply_matchup_last_def sections_matchup_last_def eval_defs)

lemma ev_tape:
  "parseTaleOfTheTape lowerLatin1 (taleOfTheTapeS sections_matchup_last) (jstr ''React'') (jstr ''Vue'') =
     Success matrix_ok"
  by (simp add: sections_matchup_last_def matrix_ok_def eval_defs)

lemma ev_verdicts:
  "parseScenarios RegExp_new lowerLatin1 (verdictsS sections_matchup_last) (jstr ''React'') (jstr ''Vue'') =
     Inr (Success verdicts_ok)"
  by (simp add: sections_matchup_last_def verdicts_ok_def eval_defs)

lemma ev_tax: "parseHiddenTax (hiddenTaxS sections_matchup_last) = Success hiddenTax_ok"
  by (simp add: sections_matchup_last_def hiddenTax_ok_def eval_defs)

lemma ev_tie:
  "trim (tieBreakerS sections_matchup_last) = tieBreakerS sections_matchup_last"
  "tieBreakerS sections_matchup_last \<noteq> []"
  "tieBreakerS sections_matchup_last = tieBreaker analysis_matchup_last"
  "tieBreaker analysis_matchup_last =
     jstr ''Ship now?'' @ [10] @ jstr ''### 1. Matchup'' @ [10] @ matchupS sections_matchup_last"
  by (simp_all add: sections_matchup_last_def analysis_matchup_last_def eval_defs)

lemma ev_assemble:
  "assemble RegExp_new lowerLatin1 now sections_matchup_last (jstr ''React'') (jstr ''Vue'') =
     Inr (Success analysis_matchup_last)"
  unfolding assemble_def
  by (simp add: ev_tape ev_verdicts ev_tax ev_tie(1,2)) (simp add: analysis_matchup_last_def sections_matchup_last_def)

lemma ev_reply:
  "parseLLMResponse RegExp_new lowerLatin1 now reply_matchup_last (jstr ''React'') (jstr ''Vue'') =
     Inr (Success analysis_matchup_last)"
proof -
  have "parseLLMResponse_try RegExp_new lowerLatin1 now reply_matchup_last (jstr ''React'') (jstr ''Vue'') =
          Inr (Success analysis_matchup_last)"
    by (simp add: parseLLMResponse_try_def ev_sections ev_assemble)
  then show ?thesis
    using names_valid reply_nonempty
    by (simp add: parseLLMResponse_def tryCatch_def reply_trim)
qed

lemma ev_tape_without_cost_row:
  "parseTaleOfTheTape lowerLatin1 tape_without_cost_row (jstr ''React'') (jstr ''Vue'') =
     Success \<lparr>speed = \<lparr>tech1 = (jstr ''low cost here''), tech2 = (jstr ''fast'')\<rparr>,
           cost = \<lparr>tech1 = (jstr ''here''), tech2 = (jstr ''fast'')\<rparr>,
           developerExperience = \<lparr>tech1 = (jstr ''a''), tech2 = (jstr ''b'')\<rparr>,
           scalability = \<lparr>tech1 = (jstr ''c''), tech2 = (jstr ''d'')\<rparr>,
           maintainability = \<lparr>tech1 = (jstr ''e''), tech2 = (jstr ''f'')\<rparr>\<rparr>"
  by (simp add: tape_without_cost_row_def eval_defs)

lemma ev_tape_blank_descriptors:
  "parseTaleOfTheTape lowerLatin1 tape_blank_descriptors (jstr ''React'') (jstr ''Vue'') =
     Success \<lparr>speed = \<lparr>tech1 = [], tech2 = []\<rparr>,
           cost = \<lparr>tech1 = (jstr ''c''), tech2 = (jstr ''d'')\<rparr>,
           developerExperience = \<lparr>tech1 = (jstr ''e''), tech2 = (jstr ''f'')\<rparr>,
           scalability = \<lparr>tech1 = (jstr ''g''), tech2 = (jstr ''h'')\<rparr>,
           maintainability = \<lparr>tech1 = (jstr ''i''), tech2 = (jstr ''j'')\<rparr>\<rparr>"
  by (simp add: tape_blank_descriptors_def eval_defs)

lemma ev_verdicts_thrown:
  "parseScenarios RegExp_new lowerLatin1 verdicts_without_winner (jstr ''C++'') (jstr ''Rust'') =
     Inr (Failure (ScenariosFailed (SyntaxError (jstr ''c++''))))"
  by (simp add: verdicts_without_winner_def eval_defs)

lemma ev_located:
  "scenLoop (trim verdicts_without_winner) (scenPatterns (teamType MoveFastTeam)) None = Some moveFast_match"
  "scenLoop (trim verdicts_without_winner) (scenPatterns (teamType ScaleTeam)) None \<noteq> None"
  "scenLoop (trim verdicts_without_winner) (scenPatterns (teamType BudgetTeam)) None \<noteq> None"
  by (simp_all add: verdicts_without_winner_def moveFast_match_def eval_defs)

lemma ev_moveFast_text: "trim (textOf (grp moveFast_match 1)) = jstr '': ship it today''"
  by (simp add: moveFast_match_def eval_defs)

lemma ev_no_winner_phrase: "winnerText (winnerLoop (jstr '': ship it today'') winnerPatterns None) = None"
  by (simp add: eval_defs)

lemma ev_names_absent:
  "positiveLoop (lowerLatin1 (jstr '': ship it today'')) (jstr ''C++'') (jstr ''Rust'')
     (lowerLatin1 (jstr ''C++'')) (lowerLatin1 (jstr ''Rust'')) positiveWords = []"
  "\<not> jsIncludes (lowerLatin1 (jstr '': ship it today'')) (lowerLatin1 (jstr ''C++''))"
  "\<not> jsIncludes (lowerLatin1 (jstr '': ship it today'')) (lowerLatin1 (jstr ''Rust''))"
  by (simp_all add: eval_defs)

lemma ev_patterns:
  "RegExp_new (lowerLatin1 (jstr ''C++'')) = None"
  by (simp_all add: eval_defs)

lemma ev_tax_pain_points:
  "parseHiddenTax tax_pain_points =
     Success \<lparr>technology = (jstr ''React''), warning = (jstr ''pa''), timeframe = (jstr ''points later''),
           impact = (jstr ''pa expected in points later'')\<rparr>"
  by (simp add: tax_pain_points_def eval_defs)

lemma ev_tax_template:
  "rmatch (trim tax_pain_points) True alternativeTax1 =
     Some [Some (jstr ''If you choose React, be prepared to pay the tax of pain points later''),
           Some (jstr ''React''), Some (jstr ''pain points later'')]"
  by (simp add: tax_pain_points_def eval_defs)

lemma ev_unstructured:
  "extractSections (jstr ''hello'') = Failure (SectionMissing K_matchup (jstr ''hello''))"
  by (simp add: eval_defs)

section \<open>Section extraction\<close>

lemma sectionContent_Some:
  "sectionContent s pat = Some c \<Longrightarrow> c \<noteq> [] \<and> (\<exists>ma. rmatch s True pat = Some ma \<and> c = trim (textOf (grp ma 1)))"
  by (auto simp: sectionContent_def split: option.splits if_splits)

lemma sectionContent_None:
  "sectionContent s pat = None \<longleftrightarrow>
     rmatch s True pat = None \<or> (\<exists>ma. rmatch s True pat = Some ma \<and> trim (textOf (grp ma 1)) = [])"
  by (auto simp: sectionContent_def truthy_def textOf_def split: option.splits if_splits)

lemma extractLoop_Success:
  "extractLoop s ps secs = Success secs' \<Longrightarrow> distinct (map fst ps) \<Longrightarrow>
     (\<forall>(k, p) \<in> set ps. sectionContent s p = Some (secs' k)) \<and> (\<forall>k. k \<notin> fst ` set ps \<longrightarrow> secs' k = secs k)"
proof (induction ps arbitrary: secs)
  case Nil
  then show ?case by simp
next
  case (Cons kp ps)
  obtain key pat where kp: "kp = (key, pat)" by (cases kp)
  from Cons.prems(1) obtain c where c: "sectionContent s pat = Some c"
    and rest: "extractLoop s ps (secs(key := c)) = Success secs'"
    unfolding kp by (cases "sectionContent s pat") simp_all
  from Cons.prems(2) have d: "distinct (map fst ps)" and nk: "key \<notin> fst ` set ps"
    unfolding kp by simp_all
  from Cons.IH [OF rest d]
  have ih1: "\<forall>(k, p) \<in> set ps. sectionContent s p = Some (secs' k)"
    and ih2: "\<forall>k. k \<notin> fst ` set ps \<longrightarrow> secs' k = (secs(key := c)) k" by blast+
  from ih2 nk have sk: "secs' key = c" by simp
  have "\<forall>(k, p) \<in> set ((key, pat) # ps). sectionContent s p = Some (secs' k)"
    using ih1 c sk by simp
  moreover have "\<forall>k. k \<notin> fst ` set ((key, pat) # ps) \<longrightarrow> secs' k = secs k"
    using ih2 by simp
  ultimately show ?case unfolding kp by blast
qed

lemma extractLoop_Failure:
  "extractLoop s ps secs = Failure e \<Longrightarrow>
     \<exists>before key pat after. ps = before @ (key, pat) # after \<and> e = SectionMissing key (take 200 s) \<and>
        sectionContent s pat = None \<and> (\<forall>(k, p) \<in> set before. sectionContent s p \<noteq> None)"
proof (induction ps arbitrary: secs)
  case Nil
  then show ?case by simp
next
  case (Cons kp ps)
  obtain key pat where kp: "kp = (key, pat)" by (cases kp)
  show ?case
  proof (cases "sectionContent s pat")
    case None
    with Cons.prems have e: "e = SectionMissing key (take 200 s)"
      unfolding kp by simp
    have "kp # ps = [] @ (key, pat) # ps" unfolding kp by simp
    moreover have "\<forall>(k, p) \<in> set []. sectionContent s p \<noteq> None" by simp
    ultimately show ?thesis using e None by blast
  next
    case (Some c)
    with Cons.prems have "extractLoop s ps (secs(key := c)) = Failure e"
      unfolding kp by simp
    from Cons.IH [OF this] obtain before key' pat' after where
      ps: "ps = before @ (key', pat') # after" and e: "e = SectionMissing key' (take 200 s)"
      and n: "sectionContent s pat' = None" and b: "\<forall>(k, p) \<in> set before. sectionContent s p \<noteq> None"
      by blast
    have "kp # ps = (kp # before) @ (key', pat') # after" using ps by simp
    moreover have "\<forall>(k, p) \<in> set (kp # before). sectionContent s p \<noteq> None"
      using b Some unfolding kp by simp
    ultimately show ?thesis using e n by blast
  qed
qed

lemma scan_order: "map fst patterns = [K_matchup, K_taleOfTheTape, K_verdicts, K_hiddenTax, K_tieBreaker]"
  by (simp add: patterns_def)

text \<open>
  \<open>parseLLMResponse\<close>, the one caller of \<open>extractSections\<close>, answers a blank reply itself:
  the replies that reach \<open>extractSections\<close> are not blank.
\<close>

lemma blank_reply_not_extracted:
  "response = [] \<or> trim response = [] \<Longrightarrow>
     parseLLMResponse ctor lower now response t1 t2 =
       Inr (Failure (parsingError now ''LLM response is empty or invalid''
                       (Text ''Response must be a non-empty string'')))"
  by (simp add: parseLLMResponse_def)

text \<open>
  Claim C1. For every reply that is not blank, \<open>extractSections\<close> either returns all five
  sections, each the trimmed, non-empty capture of its pattern, or fails with
  \<open>SectionMissing\<close> for the first key, in the order matchup, taleOfTheTape, verdicts,
  hiddenTax, tieBreaker, whose pattern does not match or whose capture is blank (the two
  cases are treated alike); every key before it was found, and no partial section set is
  returned.
\<close>

theorem extractSections_outcome:
  assumes "response \<noteq> []" and "trim response \<noteq> []"
  shows "(case extractSections response of
            Success secs \<Rightarrow>
              \<forall>(key, pat) \<in> set patterns.
                 sectionContent (trim response) pat = Some (field key secs) \<and> field key secs \<noteq> []
          | Failure e \<Rightarrow>
              \<exists>before key pat after. patterns = before @ (key, pat) # after \<and>
                 e = SectionMissing key (take 200 (trim response)) \<and>
                 (rmatch (trim response) True pat = None \<or>
                  (\<exists>ma. rmatch (trim response) True pat = Some ma \<and> trim (textOf (grp ma 1)) = [])) \<and>
                 (\<forall>(k, p) \<in> set before. sectionContent (trim response) p \<noteq> None))
         \<and> map fst patterns = [K_matchup, K_taleOfTheTape, K_verdicts, K_hiddenTax, K_tieBreaker]"
proof (cases "extractLoop (trim response) patterns (\<lambda>k. [])")
  case (Failure e)
  from Failure assms have es: "extractSections response = Failure e"
    by (simp add: extractSections_def)
  from extractLoop_Failure [OF Failure] obtain before key pat after where
    "patterns = before @ (key, pat) # after" "e = SectionMissing key (take 200 (trim response))"
    "sectionContent (trim response) pat = None" "\<forall>(k, p) \<in> set before. sectionContent (trim response) p \<noteq> None"
    by blast
  then have "\<exists>before key pat after. patterns = before @ (key, pat) # after \<and>
                 e = SectionMissing key (take 200 (trim response)) \<and>
                 (rmatch (trim response) True pat = None \<or>
                  (\<exists>ma. rmatch (trim response) True pat = Some ma \<and> trim (textOf (grp ma 1)) = [])) \<and>
                 (\<forall>(k, p) \<in> set before. sectionContent (trim response) p \<noteq> None)"
    unfolding sectionContent_None by blast
  then show ?thesis
    unfolding es result.case using scan_order by blast
next
  case (Success secs)
  define S where "S = Sections (secs K_matchup) (secs K_taleOfTheTape) (secs K_verdicts) (secs K_hiddenTax) (secs K_tieBreaker)"
  from Success assms have es: "extractSections response = Success S"
    by (simp add: extractSections_def S_def)
  have d: "distinct (map fst patterns)" by (simp add: scan_order)
  from extractLoop_Success [OF Success d]
  have all: "\<forall>(k, p) \<in> set patterns. sectionContent (trim response) p = Some (secs k)" by blast
  have f: "field k S = secs k" for k
    by (cases k) (simp_all add: S_def)
  have "\<forall>(key, pat) \<in> set patterns.
          sectionContent (trim response) pat = Some (field key S) \<and> field key S \<noteq> []"
  proof (clarify, intro conjI)
    fix k p assume kp: "(k, p) \<in> set patterns"
    with all have c: "sectionContent (trim response) p = Some (secs k)" by blast
    then show "sectionContent (trim response) p = Some (field k S)" by (simp add: f)
    from sectionContent_Some [OF c] show "field k S \<noteq> []" by (simp add: f)
  qed
  then show ?thesis
    unfolding es result.case using scan_order by blast
qed

theorem extractSections_outcome_witness:
  "reply_matchup_last \<noteq> [] \<and> trim reply_matchup_last \<noteq> [] \<and>
   extractSections reply_matchup_last = Success sections_matchup_last \<and>
   sectionContent (trim reply_matchup_last) (sectionRx ''5'' (Seq (Chr 0xD83C) (Chr 0xDFC1)) ''Tie-Breaker'' Eol) =
     Some (tieBreakerS sections_matchup_last)"
  using extractSections_outcome [of reply_matchup_last] reply_nonempty
  by (simp add: reply_trim ev_sections patterns_def)

section \<open>The clock\<close>

lemma stampless_assemble:
  "stampless (assemble ctor lower now1 secs t1 t2) = stampless (assemble ctor lower now2 secs t1 t2)"
  unfolding assemble_def stampless_def parsingError_def
  by (simp split: result.splits sum.splits)

lemma stampless_try:
  "stampless (parseLLMResponse_try ctor lower now1 response t1 t2) = stampless (parseLLMResponse_try ctor lower now2 response t1 t2)"
proof (cases "extractSections response")
  case (Failure e)
  then show ?thesis by (simp add: parseLLMResponse_try_def stampless_def parsingError_def)
next
  case (Success secs)
  then show ?thesis by (simp add: parseLLMResponse_try_def stampless_assemble)
qed

text \<open>
  Claim C2. Two calls of \<open>parseLLMResponse\<close> with the same reply and the same names
  yield the same outcome up to the \<open>timestamp\<close> field of the error object, which is the
  reading of the clock at the time of the call: the same analysis on success, and on
  failure the same code, message and details.
\<close>

theorem parseLLMResponse_clock:
  "stampless (parseLLMResponse ctor lower now1 response t1 t2) = stampless (parseLLMResponse ctor lower now2 response t1 t2)"
proof -
  let ?b1 = "parseLLMResponse_try ctor lower now1 response t1 t2"
  let ?b2 = "parseLLMResponse_try ctor lower now2 response t1 t2"
  have "stampless (tryCatch ?b1 (\<lambda>e. Inr (Failure (parsingError now1 ''Unexpected error parsing LLM response'' (OfException e)))))
      = stampless (tryCatch ?b2 (\<lambda>e. Inr (Failure (parsingError now2 ''Unexpected error parsing LLM response'' (OfException e)))))"
    using stampless_try [of ctor lower now1 response t1 t2 now2]
    by (cases ?b1; cases ?b2) (auto simp: tryCatch_def stampless_def parsingError_def split: result.splits)
  then show ?thesis
    unfolding parseLLMResponse_def by (simp add: stampless_def parsingError_def)
qed

theorem parseLLMResponse_reads_clock:
  "parseLLMResponse RegExp_new lowerLatin1 (jstr ''2024-01-01T00:00:00.000Z'') (jstr ''hello'') (jstr ''React'') (jstr ''Vue'') \<noteq>
   parseLLMResponse RegExp_new lowerLatin1 (jstr ''2024-01-01T00:00:00.001Z'') (jstr ''hello'') (jstr ''React'') (jstr ''Vue'')"
proof -
  have "trim (jstr ''hello'') \<noteq> []" "jstr ''hello'' \<noteq> []"
    "jstr ''React'' \<noteq> []" "jstr ''Vue'' \<noteq> []" "trim (jstr ''React'') \<noteq> []" "trim (jstr ''Vue'') \<noteq> []"
    by (simp_all add: eval_defs)
  moreover have "jstr ''2024-01-01T00:00:00.000Z'' \<noteq> jstr ''2024-01-01T00:00:00.001Z''"
    by (simp add: jstr_def)
  ultimately show ?thesis
    by (simp add: parseLLMResponse_def parseLLMResponse_try_def tryCatch_def parsingError_def ev_unstructured)
qed

section \<open>Scenarios\<close>

text \<open>
  Claim C3. The three scenarios of \<open>verdicts_without_winner\<close> are located, and
  \<open>parseScenarios\<close> fails all the same for the names C++ and Rust: the fallback of the
  winner extraction hands the lower-cased name \<open>c++\<close> to the RegExp constructor as a
  pattern, the constructor throws, and the handler of \<open>parseScenarios\<close> turns the
  exception into a failure.
\<close>

theorem parseScenarios_pattern_characters:
  "scenLoop (trim verdicts_without_winner) (scenPatterns (teamType MoveFastTeam)) None \<noteq> None \<and>
   scenLoop (trim verdicts_without_winner) (scenPatterns (teamType ScaleTeam)) None \<noteq> None \<and>
   scenLoop (trim verdicts_without_winner) (scenPatterns (teamType BudgetTeam)) None \<noteq> None \<and>
   RegExp_new (lowerLatin1 (jstr ''C++'')) = None \<and>
   parseScenarios RegExp_new lowerLatin1 verdicts_without_winner (jstr ''C++'') (jstr ''Rust'') =
     Inr (Failure (ScenariosFailed (SyntaxError (jstr ''c++''))))"
  using ev_located ev_patterns ev_verdicts_thrown by simp

text \<open>
  Claim C6. For the names C++ and Rust the scenario of the Move Fast team in
  \<open>verdicts_without_winner\<close> meets every condition of the claim: it is located, no winner
  phrasing matches its text, no positive word stands next to either name, and neither
  name occurs in the text (so both are mentioned equally often, not at all). The winner
  should be C++, the first name; but no winner is returned, as the parse fails on the
  pattern built from the name.
\<close>

theorem winner_default_not_returned:
  "scenLoop (trim verdicts_without_winner) (scenPatterns (teamType MoveFastTeam)) None = Some moveFast_match \<and>
   trim (textOf (grp moveFast_match 1)) = jstr '': ship it today'' \<and>
   winnerText (winnerLoop (jstr '': ship it today'') winnerPatterns None) = None \<and>
   positiveLoop (lowerLatin1 (jstr '': ship it today'')) (jstr ''C++'') (jstr ''Rust'')
     (lowerLatin1 (jstr ''C++'')) (lowerLatin1 (jstr ''Rust'')) positiveWords = [] \<and>
   \<not> jsIncludes (lowerLatin1 (jstr '': ship it today'')) (lowerLatin1 (jstr ''C++'')) \<and>
   \<not> jsIncludes (lowerLatin1 (jstr '': ship it today'')) (lowerLatin1 (jstr ''Rust'')) \<and>
   parseScenarios RegExp_new lowerLatin1 verdicts_without_winner (jstr ''C++'') (jstr ''Rust'') =
     Inr (Failure (ScenariosFailed (SyntaxError (jstr ''c++''))))"
  using ev_located(1) ev_moveFast_text ev_no_winner_phrase ev_names_absent ev_verdicts_thrown
  by (simp del: One_nat_def)

section \<open>The Tale of the Tape\<close>

text \<open>
  Claim C4. The tape \<open>tape_without_cost_row\<close> has rows for four dimensions and none for
  Cost; \<open>parseTaleOfTheTape\<close> should fail and name Cost, and it succeeds: the line scan
  finds the word cost inside the Speed row and reads the descriptors of Cost from there.
  And on \<open>tape_blank_descriptors\<close> it succeeds with empty descriptors for Speed, the
  bold markers being removed after the test that the captures are not blank.
\<close>

theorem tape_cost_row_deleted:
  "parseTaleOfTheTape lowerLatin1 tape_without_cost_row (jstr ''React'') (jstr ''Vue'') =
     Success \<lparr>speed = \<lparr>tech1 = (jstr ''low cost here''), tech2 = (jstr ''fast'')\<rparr>,
           cost = \<lparr>tech1 = (jstr ''here''), tech2 = (jstr ''fast'')\<rparr>,
           developerExperience = \<lparr>tech1 = (jstr ''a''), tech2 = (jstr ''b'')\<rparr>,
           scalability = \<lparr>tech1 = (jstr ''c''), tech2 = (jstr ''d'')\<rparr>,
           maintainability = \<lparr>tech1 = (jstr ''e''), tech2 = (jstr ''f'')\<rparr>\<rparr> \<and>
   parseTaleOfTheTape lowerLatin1 tape_blank_descriptors (jstr ''React'') (jstr ''Vue'') =
     Success \<lparr>speed = \<lparr>tech1 = [], tech2 = []\<rparr>,
           cost = \<lparr>tech1 = (jstr ''c''), tech2 = (jstr ''d'')\<rparr>,
           developerExperience = \<lparr>tech1 = (jstr ''e''), tech2 = (jstr ''f'')\<rparr>,
           scalability = \<lparr>tech1 = (jstr ''g''), tech2 = (jstr ''h'')\<rparr>,
           maintainability = \<lparr>tech1 = (jstr ''i''), tech2 = (jstr ''j'')\<rparr>\<rparr>"
  using ev_tape_without_cost_row ev_tape_blank_descriptors by simp

section \<open>The hidden tax\<close>

lemma rmatch_length: "rmatch s ci r = Some ma \<Longrightarrow> length ma = Suc (foldr max (groups r) 0)"
  by (auto simp: rmatch_def matchArray_def)

lemma truthy_of_trim: "trim (textOf c) \<noteq> [] \<Longrightarrow> truthy c"
  by (cases c) (auto simp: truthy_def textOf_def)

lemma groups_lit: "groups (lit s) = []"
  unfolding lit_def by (induction s) simp_all

lemma groups_seqs: "groups (seqs rs) = concat (map groups rs)"
  unfolding seqs_def by (induction rs) simp_all

lemma alternativeTax1_length:
  assumes "rmatch s True alternativeTax1 = Some ma"
  shows "length ma = 3"
  using rmatch_length [OF assms] by (simp add: alternativeTax1_def groups_lit groups_seqs)

lemma trim_6months: "trim (jstr ''6 months'') = jstr ''6 months''"
  by (simp add: trim_def jstr_def isSpace_def)

lemma parseHiddenTax_impact:
  "parseHiddenTax content = Success tax \<Longrightarrow> impact tax = warning tax @ jstr '' expected in '' @ timeframe tax"
  unfolding parseHiddenTax_def lastResort_def
  by (auto simp: Let_def split: if_splits option.splits prod.splits)

text \<open>
  When neither the full template nor the first alternative pattern matches the trimmed
  text, and the template without a timeframe matches with a technology and a warning
  that are not blank, \<open>parseHiddenTax\<close> succeeds with the timeframe \<open>6 months\<close>; and in
  every successful result the impact is the warning, then \<open> expected in \<close>, then the
  timeframe.
\<close>

lemma hiddenTax_default_and_impact:
  "(content \<noteq> [] \<and> trim content \<noteq> [] \<and>
    rmatch (trim content) True standardTax = None \<and>
    rmatch (trim content) True alternativeTax0 = None \<and>
    rmatch (trim content) True alternativeTax1 = Some ma \<and>
    trim (textOf (grp ma 1)) \<noteq> [] \<and> trim (textOf (grp ma 2)) \<noteq> []
    \<longrightarrow> parseHiddenTax content =
          Success \<lparr>technology = trim (textOf (grp ma 1)), warning = trim (textOf (grp ma 2)),
                   timeframe = jstr ''6 months'',
                   impact = trim (textOf (grp ma 2)) @ jstr '' expected in '' @ jstr ''6 months''\<rparr>)
   \<and> (\<forall>tax. parseHiddenTax content = Success tax \<longrightarrow>
          impact tax = warning tax @ jstr '' expected in '' @ timeframe tax)"
proof (intro conjI impI allI)
  fix tax assume "parseHiddenTax content = Success tax"
  then show "impact tax = warning tax @ jstr '' expected in '' @ timeframe tax"
    by (rule parseHiddenTax_impact)
next
  assume h: "content \<noteq> [] \<and> trim content \<noteq> [] \<and>
    rmatch (trim content) True standardTax = None \<and>
    rmatch (trim content) True alternativeTax0 = None \<and>
    rmatch (trim content) True alternativeTax1 = Some ma \<and>
    trim (textOf (grp ma 1)) \<noteq> [] \<and> trim (textOf (grp ma 2)) \<noteq> []"
  then have len: "length ma = 3" using alternativeTax1_length by blast
  from h have t1: "truthy (grp ma 1)" and t2: "truthy (grp ma 2)" using truthy_of_trim by blast+
  from len have g3: "grp ma 3 = None" by (simp add: grp_def)
  let ?ma' = "setGrp ma 3 (jstr ''6 months'')"
  from len have ma': "?ma' = ma @ [Some (jstr ''6 months'')]" by (simp add: setGrp_def)
  have g1': "grp ?ma' 1 = grp ma 1" and g2': "grp ?ma' 2 = grp ma 2"
    and g3': "grp ?ma' 3 = Some (jstr ''6 months'')"
    using len unfolding ma' by (simp_all add: grp_def nth_append)
  have tm: "taxMatchOf (trim content) = Some ?ma'"
    using h t1 t2 g3
    by (simp add: taxMatchOf_def complete3_def alternativePatterns_def truthy_def del: One_nat_def)
  have nz: "jstr ''6 months'' \<noteq> []" by (simp add: jstr_def)
  show "parseHiddenTax content =
          Success \<lparr>technology = trim (textOf (grp ma 1)), warning = trim (textOf (grp ma 2)),
                   timeframe = jstr ''6 months'',
                   impact = trim (textOf (grp ma 2)) @ jstr '' expected in '' @ jstr ''6 months''\<rparr>"
    using h t1 t2 nz
    by (simp add: parseHiddenTax_def tm g1' g2' g3' Let_def trim_6months truthy_def textOf_def del: One_nat_def)
qed

text \<open>
  Claim C5. The sentence \<open>tax_pain_points\<close> is in the template (technology React, warning
  \<open>pain points later\<close>) and has no timeframe clause; the timeframe should be \<open>6 months\<close>.
  The first alternative pattern, tried before the template without a timeframe, takes the
  letters \<open>in\<close> of \<open>pain\<close> for the start of the clause: the warning becomes \<open>pa\<close> and the
  timeframe \<open>points later\<close>.
\<close>

theorem hiddenTax_pain_points:
  "rmatch (trim tax_pain_points) True alternativeTax1 =
     Some [Some (jstr ''If you choose React, be prepared to pay the tax of pain points later''),
           Some (jstr ''React''), Some (jstr ''pain points later'')] \<and>
   parseHiddenTax tax_pain_points =
     Success \<lparr>technology = (jstr ''React''), warning = (jstr ''pa''), timeframe = (jstr ''points later''),
           impact = (jstr ''pa expected in points later'')\<rparr>"
  using ev_tax_template ev_tax_pain_points by simp

theorem hiddenTax_pain_points_witness:
  "\<exists>tax. parseHiddenTax tax_pain_points = Success tax \<and> warning tax = jstr ''pa'' \<and>
      timeframe tax = jstr ''points later''"
  using hiddenTax_pain_points by simp

section \<open>Totality\<close>

lemma tryCatch_returns:
  assumes "\<And>e. \<exists>v. handler e = Inr v"
  shows "\<exists>v. tryCatch body handler = Inr v"
  using assms by (cases body) (auto simp: tryCatch_def)

text \<open>
  Claim C7. \<open>parseLLMResponse\<close> returns a success or a failure for every reply, every pair
  of names and every behaviour of the RegExp constructor (and of \<open>toLowerCase\<close>), and so
  does \<open>parseScenarios\<close>,
  the one stage that builds patterns from the names: an exception never reaches the
  caller.
\<close>

theorem parseLLMResponse_total:
  "(\<exists>r. parseLLMResponse ctor lower now response t1 t2 = Inr r) \<and>
   (\<exists>r. parseScenarios ctor lower content t1 t2 = Inr r)"
proof
  have "\<exists>v. tryCatch (parseLLMResponse_try ctor lower now response t1 t2)
          (\<lambda>e. Inr (Failure (parsingError now ''Unexpected error parsing LLM response'' (OfException e)))) = Inr v"
    by (rule tryCatch_returns) simp
  then show "\<exists>r. parseLLMResponse ctor lower now response t1 t2 = Inr r"
    unfolding parseLLMResponse_def by auto
  show "\<exists>r. parseScenarios ctor lower content t1 t2 = Inr r"
    unfolding parseScenarios_def by (rule tryCatch_returns) simp
qed

theorem parseLLMResponse_total_witness:
  "(\<exists>r. parseLLMResponse RegExp_new lowerLatin1 [] reply_matchup_last (jstr ''C++'') (jstr ''Rust'') = Inr r) \<and>
   (\<exists>r. parseScenarios RegExp_new lowerLatin1 verdicts_without_winner (jstr ''C++'') (jstr ''Rust'') = Inr r)"
  using parseLLMResponse_total [of RegExp_new lowerLatin1 "[]" reply_matchup_last "jstr ''C++''" "jstr ''Rust''"
      verdicts_without_winner]
  by simp

section \<open>The matchup\<close>

lemma assemble_matchup:
  "assemble ctor lower now secs t1 t2 = Inr (Success a) \<Longrightarrow> matchup a = \<lparr>technology1 = t1, technology2 = t2\<rparr>"
  unfolding assemble_def by (auto split: result.splits sum.splits if_splits)

lemma assemble_ignores_matchup:
  "assemble ctor lower now (Sections x tp vd ht tb) t1 t2 = assemble ctor lower now (Sections y tp vd ht tb) t1 t2"
  unfolding assemble_def by (simp split: result.splits sum.splits)

text \<open>
  Claim C10. On a successful parse the matchup of the analysis holds the two names given
  by the caller, and the analysis is made of the names and of the four other captured
  sections only: the sections were extracted, and with any other text in place of the
  captured matchup section the same analysis is assembled. (The text of the matchup
  section can still be in the analysis as a part of another capture.)
\<close>

theorem matchup_from_request:
  assumes "parseLLMResponse ctor lower now response t1 t2 = Inr (Success a)"
  shows "matchup a = \<lparr>technology1 = t1, technology2 = t2\<rparr> \<and>
         (\<exists>secs. extractSections response = Success secs \<and>
            (\<forall>x. assemble ctor lower now (Sections x (taleOfTheTapeS secs) (verdictsS secs) (hiddenTaxS secs) (tieBreakerS secs)) t1 t2
                 = Inr (Success a)))"
proof -
  from assms have t: "parseLLMResponse_try ctor lower now response t1 t2 = Inr (Success a)"
    unfolding parseLLMResponse_def tryCatch_def parsingError_def
    by (auto split: if_splits sum.splits)
  then obtain secs where s: "extractSections response = Success secs"
    and a: "assemble ctor lower now secs t1 t2 = Inr (Success a)"
    unfolding parseLLMResponse_try_def by (auto split: result.splits)
  have "assemble ctor lower now (Sections x (taleOfTheTapeS secs) (verdictsS secs) (hiddenTaxS secs) (tieBreakerS secs)) t1 t2
          = Inr (Success a)" for x
    using a assemble_ignores_matchup [of ctor lower now x "taleOfTheTapeS secs" "verdictsS secs" "hiddenTaxS secs"
        "tieBreakerS secs" t1 t2 "matchupS secs"]
    by simp
  with s assemble_matchup [OF a] show ?thesis by blast
qed

theorem matchup_from_request_witness:
  "parseLLMResponse RegExp_new lowerLatin1 [] reply_matchup_last (jstr ''React'') (jstr ''Vue'') =
     Inr (Success analysis_matchup_last) \<and>
   matchup analysis_matchup_last = \<lparr>technology1 = jstr ''React'', technology2 = jstr ''Vue''\<rparr> \<and>
   assemble RegExp_new lowerLatin1 [] (Sections (jstr ''Angular vs Svelte'') (taleOfTheTapeS sections_matchup_last)
       (verdictsS sections_matchup_last) (hiddenTaxS sections_matchup_last) (tieBreakerS sections_matchup_last))
     (jstr ''React'') (jstr ''Vue'') = Inr (Success analysis_matchup_last)"
  using matchup_from_request [OF ev_reply [of "[]"]]
  by (simp add: ev_reply ev_sections)

theorem matchup_text_in_tieBreaker:
  "extractSections reply_matchup_last = Success sections_matchup_last \<and>
   parseLLMResponse RegExp_new lowerLatin1 [] reply_matchup_last (jstr ''React'') (jstr ''Vue'') =
     Inr (Success analysis_matchup_last) \<and>
   tieBreaker analysis_matchup_last =
     jstr ''Ship now?'' @ [10] @ jstr ''### 1. Matchup'' @ [10] @ matchupS sections_matchup_last"
  using ev_sections ev_reply [of "[]"] ev_tie(4) by simp

section \<open>Rate limiting\<close>

lemma admitted_late:
  "\<forall>r \<in> set rs. limit < fst r \<Longrightarrow> filter (inWindow c limit) (admitted m rs) = []"
proof (induction rs arbitrary: m)
  case Nil
  then show ?case by simp
next
  case (Cons r rs)
  obtain t c' where r: "r = (t, c')" by (cases r)
  from Cons.prems have "limit < t" and rest: "\<forall>r \<in> set rs. limit < fst r" unfolding r by simp_all
  then have "\<not> inWindow c limit (t, c')" by (simp add: inWindow_def)
  then show ?case unfolding r using Cons.IH [OF rest] by simp
qed

lemma admitted_window:
  "m c = Some d \<Longrightarrow> count d \<le> 10 \<Longrightarrow> sorted (map fst rs) \<Longrightarrow>
     length (filter (inWindow c (resetTime d)) (admitted m rs)) \<le> 10 - count d"
proof (induction rs arbitrary: m d)
  case Nil
  then show ?case by simp
next
  case (Cons r rs)
  obtain t c' where r: "r = (t, c')" by (cases r)
  from Cons.prems(3) have srt: "sorted (map fst rs)" and ge: "\<forall>r' \<in> set rs. t \<le> fst r'"
    unfolding r by auto
  show ?case
  proof (cases "c' = c")
    case False
    then have mc: "snd (checkRateLimit t c' m) c = Some d"
      using Cons.prems(1) by (auto simp: checkRateLimit_def split: option.splits)
    moreover have "\<not> inWindow c (resetTime d) (t, c')" using False by (simp add: inWindow_def)
    ultimately show ?thesis
      using Cons.IH [of "snd (checkRateLimit t c' m)" d, OF mc Cons.prems(2) srt]
      unfolding r by simp
  next
    case True
    show ?thesis
    proof (cases "resetTime d < t")
      case late: True
      with ge have "\<forall>r' \<in> set rs. resetTime d < fst r'" by fastforce
      then have e: "filter (inWindow c (resetTime d)) (admitted (snd (checkRateLimit t c m)) rs) = []"
        by (rule admitted_late)
      have "\<not> inWindow c (resetTime d) (t, c)" using late by (simp add: inWindow_def)
      then show ?thesis
        unfolding r True by (simp add: e)
    next
      case False
      show ?thesis
      proof (cases "10 \<le> count d")
        case full: True
        then have chk: "checkRateLimit t c m = (False, m)"
          using Cons.prems(1) False by (simp add: checkRateLimit_def RATE_LIMIT_MAX_REQUESTS_def)
        from Cons.IH [of m d, OF Cons.prems(1) Cons.prems(2) srt] show ?thesis
          unfolding r True by (simp add: chk)
      next
        case room: False
        let ?d = "d\<lparr>count := count d + 1\<rparr>"
        from room have chk: "checkRateLimit t c m = (True, m(c \<mapsto> ?d))"
          using Cons.prems(1) False by (simp add: checkRateLimit_def RATE_LIMIT_MAX_REQUESTS_def)
        have mc: "(m(c \<mapsto> ?d)) c = Some ?d" by simp
        from room have le: "count ?d \<le> 10" by simp
        have a: "resetTime ?d = resetTime d" and b: "count ?d = count d + 1" by simp_all
        have "length (filter (inWindow c (resetTime d)) (admitted (m(c \<mapsto> ?d)) rs)) \<le> 10 - (count d + 1)"
          using Cons.IH [of "m(c \<mapsto> ?d)" ?d, OF mc le srt] unfolding a b .
        moreover have "inWindow c (resetTime d) (t, c)" using False by (simp add: inWindow_def)
        ultimately show ?thesis
          using room unfolding r True by (simp add: chk)
      qed
    qed
  qed
qed

text \<open>
  Claim C9. When a call of a client at time \<open>t0\<close> opens a window (the client has no entry,
  or its window has expired), then among that call and all later calls, of any clients
  and in the order of their times, \<open>checkRateLimit\<close> returns \<open>true\<close> for at most 10 calls
  of that client up to the time \<open>t0 + 60000\<close>. And when the count of the calling client
  has reached 10 and its window has not expired, \<open>POST\<close> answers \<open>RATE_LIMIT_EXCEEDED\<close>
  with status 429, leaves the map as it is and does not run the rest of the handler.
\<close>

theorem rate_limit_window:
  "(sorted (map fst ((t0, c) # rs)) \<and> (m c = None \<or> (\<exists>d. m c = Some d \<and> resetTime d < t0))
      \<longrightarrow> length (filter (inWindow c (t0 + 60000)) (admitted m ((t0, c) # rs))) \<le> 10)
   \<and> (m (clientIdOf req) = Some d \<and> 10 \<le> count d \<and> now \<le> resetTime d
      \<longrightarrow> POST handle stamp now req m =
            (ErrorResponse \<lparr>code = ''RATE_LIMIT_EXCEEDED'',
                            message = ''Too many requests. Please wait before trying again.'',
                            details = NoDetails, timestamp = stamp\<rparr> 429, m))"
proof (intro conjI impI)
  assume h: "sorted (map fst ((t0, c) # rs)) \<and> (m c = None \<or> (\<exists>d. m c = Some d \<and> resetTime d < t0))"
  let ?d = "\<lparr>count = 1, resetTime = t0 + 60000\<rparr>"
  from h have chk: "checkRateLimit t0 c m = (True, m(c \<mapsto> ?d))"
    by (auto simp: checkRateLimit_def RATE_LIMIT_WINDOW_def split: option.splits)
  from h have srt: "sorted (map fst rs)" by simp
  have mc: "(m(c \<mapsto> ?d)) c = Some ?d" by simp
  have le: "count ?d \<le> 10" by simp
  from admitted_window [of "m(c \<mapsto> ?d)" c ?d rs, OF mc le srt]
  have "length (filter (inWindow c (t0 + 60000)) (admitted (m(c \<mapsto> ?d)) rs)) \<le> 9" by simp
  moreover have "inWindow c (t0 + 60000) (t0, c)" by (simp add: inWindow_def)
  ultimately show "length (filter (inWindow c (t0 + 60000)) (admitted m ((t0, c) # rs))) \<le> 10"
    by (simp add: chk)
next
  assume "m (clientIdOf req) = Some d \<and> 10 \<le> count d \<and> now \<le> resetTime d"
  then have "checkRateLimit now (clientIdOf req) m = (False, m)"
    by (simp add: checkRateLimit_def RATE_LIMIT_MAX_REQUESTS_def)
  then show "POST handle stamp now req m =
            (ErrorResponse \<lparr>code = ''RATE_LIMIT_EXCEEDED'',
                            message = ''Too many requests. Please wait before trying again.'',
                            details = NoDetails, timestamp = stamp\<rparr> 429, m)"
    by (simp add: POST_def createErrorResponse_def)
qed

lemma burst_admitted: "admitted Map.empty burst = take 10 burst"
  by (simp add: burst_def checkRateLimit_def RATE_LIMIT_WINDOW_def RATE_LIMIT_MAX_REQUESTS_def)

lemma client_of_request: "clientIdOf \<lparr>forwardedFor = Some client, realIp = None\<rparr> = client"
  by (simp add: clientIdOf_def truthy_def textOf_def client_def jstr_def)

theorem rate_limit_window_witness:
  "sorted (map fst burst) \<and> hd burst = (0, client) \<and>
   admitted Map.empty burst = take 10 burst \<and>
   length (filter (inWindow client 60000) (admitted Map.empty burst)) \<le> 10 \<and>
   POST (\<lambda>r. ()) [] 30000 \<lparr>forwardedFor = Some client, realIp = None\<rparr>
        [client \<mapsto> \<lparr>count = 10, resetTime = 60000\<rparr>] =
     (ErrorResponse \<lparr>code = ''RATE_LIMIT_EXCEEDED'',
                     message = ''Too many requests. Please wait before trying again.'',
                     details = NoDetails, timestamp = []\<rparr> 429,
      [client \<mapsto> \<lparr>count = 10, resetTime = 60000\<rparr>])"
proof -
  have s: "sorted (map fst burst)" by (simp add: burst_def)
  have h: "hd burst = (0, client)" by (simp add: burst_def)
  have b: "(0, client) # tl burst = burst" by (simp add: burst_def)
  have "length (filter (inWindow client (0 + 60000)) (admitted Map.empty ((0, client) # tl burst))) \<le> 10"
    using rate_limit_window [where ?t0.0 = 0 and c = client and rs = "tl burst" and m = Map.empty] s
    unfolding b by simp
  then have w: "length (filter (inWindow client 60000) (admitted Map.empty burst)) \<le> 10"
    unfolding b by simp
  have p: "POST (\<lambda>r. ()) [] 30000 \<lparr>forwardedFor = Some client, realIp = None\<rparr>
           [client \<mapsto> \<lparr>count = 10, resetTime = 60000\<rparr>] =
         (ErrorResponse \<lparr>code = ''RATE_LIMIT_EXCEEDED'',
                         message = ''Too many requests. Please wait before trying again.'',
                         details = NoDetails, timestamp = []\<rparr> 429,
          [client \<mapsto> \<lparr>count = 10, resetTime = 60000\<rparr>])"
    using rate_limit_window [where req = "\<lparr>forwardedFor = Some client, realIp = None\<rparr>"
        and d = "\<lparr>count = 10, resetTime = 60000\<rparr>"
        and m = "[client \<mapsto> \<lparr>count = 10, resetTime = 60000\<rparr>]" and now = 30000
        and handle = "\<lambda>r. ()" and stamp = "[]"]
    by (simp add: client_of_request)
  from s h burst_admitted w p show ?thesis by blast
qed

section \<open>What a section pattern captures\<close>



lemma keeps_mono: "keeps gs x y \<Longrightarrow> set gs \<subseteq> set gs' \<Longrightarrow> keeps gs' x y"
  by (auto simp: keeps_def)



















lemma matcher_Cls_fun: "matcher ci (Cls neg items) k = step (\<lambda>d. inItems ci items d \<noteq> neg) k"
  by (rule ext) simp




















end
